theory Spec2Isabelle
  imports Main
begin

section \<open>The relational schema of \<^verbatim>\<open>packages/db/schema.ts\<close>\<close>

text \<open>
  The schema is a set of table declarations. A column declared \<^verbatim>\<open>text(...)\<close> is a
  \<open>string\<close>, an \<^verbatim>\<open>integer(..., {mode: "timestamp"})\<close> is an \<open>int\<close> (a point in time),
  an \<^verbatim>\<open>integer(..., {mode: "boolean"})\<close> is a \<open>bool\<close>, a column with an \<^verbatim>\<open>enum\<close>
  option is a datatype with one constructor per listed value. A column without
  \<^verbatim>\<open>.notNull()\<close> (and without \<^verbatim>\<open>.primaryKey()\<close>) may hold SQL NULL and is an
  \<open>option\<close>. Every row type keeps the column order of the source; a field is named
  \<open>table_column\<close>.
\<close>

type_synonym ident = string
type_synonym timestamp = int

datatype role = RoleAdmin | RoleUser
datatype task_status = Pending | Failure | Success
datatype BookmarkTypes = LINK | TEXT | ASSET
datatype AssetTypes =
  LINK_BANNER_IMAGE | LINK_SCREENSHOT | LINK_FULL_PAGE_ARCHIVE | LINK_VIDEO
  | BOOKMARK_ASSET | UNKNOWN
datatype bookmarkAsset_kind = KindImage | KindPdf
datatype attached_by = ByAi | ByHuman
datatype applies_to = AppliesAll | AppliesText | AppliesImages

record users_row =
  users_id :: ident
  users_name :: string
  users_email :: string
  users_emailVerified :: "timestamp option"
  users_image :: "string option"
  users_password :: "string option"
  users_role :: "role option"

record accounts_row =
  accounts_userId :: ident
  accounts_type :: string
  accounts_provider :: string
  accounts_providerAccountId :: string
  accounts_refresh_token :: "string option"
  accounts_access_token :: "string option"
  accounts_expires_at :: "int option"
  accounts_token_type :: "string option"
  accounts_scope :: "string option"
  accounts_id_token :: "string option"
  accounts_session_state :: "string option"

record sessions_row =
  sessions_sessionToken :: string
  sessions_userId :: ident
  sessions_expires :: timestamp

record verificationTokens_row =
  verificationTokens_identifier :: string
  verificationTokens_token :: string
  verificationTokens_expires :: timestamp

record apiKeys_row =
  apiKeys_id :: ident
  apiKeys_name :: string
  apiKeys_createdAt :: timestamp
  apiKeys_keyId :: string
  apiKeys_keyHash :: string
  apiKeys_userId :: ident

record bookmarks_row =
  bookmarks_id :: ident
  bookmarks_createdAt :: timestamp
  bookmarks_title :: "string option"
  bookmarks_archived :: bool
  bookmarks_favourited :: bool
  bookmarks_userId :: ident
  bookmarks_taggingStatus :: "task_status option"
  bookmarks_summary :: "string option"
  bookmarks_note :: "string option"
  bookmarks_type :: BookmarkTypes

record bookmarkLinks_row =
  bookmarkLinks_id :: ident
  bookmarkLinks_url :: string
  bookmarkLinks_title :: "string option"
  bookmarkLinks_description :: "string option"
  bookmarkLinks_imageUrl :: "string option"
  bookmarkLinks_favicon :: "string option"
  bookmarkLinks_content :: "string option"
  bookmarkLinks_htmlContent :: "string option"
  bookmarkLinks_crawledAt :: "timestamp option"
  bookmarkLinks_crawlStatus :: "task_status option"

record assets_row =
  assets_id :: ident
  assets_assetType :: AssetTypes
  assets_size :: int
  assets_contentType :: "string option"
  assets_fileName :: "string option"
  assets_bookmarkId :: "ident option"
  assets_userId :: ident

record bookmarkTexts_row =
  bookmarkTexts_id :: ident
  bookmarkTexts_text :: "string option"
  bookmarkTexts_sourceUrl :: "string option"

record bookmarkAssets_row =
  bookmarkAssets_id :: ident
  bookmarkAssets_assetType :: bookmarkAsset_kind
  bookmarkAssets_assetId :: string
  bookmarkAssets_content :: "string option"
  bookmarkAssets_metadata :: "string option"
  bookmarkAssets_fileName :: "string option"
  bookmarkAssets_sourceUrl :: "string option"

record bookmarkTags_row =
  bookmarkTags_id :: ident
  bookmarkTags_name :: string
  bookmarkTags_createdAt :: timestamp
  bookmarkTags_userId :: ident

record tagsOnBookmarks_row =
  tagsOnBookmarks_bookmarkId :: ident
  tagsOnBookmarks_tagId :: ident
  tagsOnBookmarks_attachedAt :: "timestamp option"
  tagsOnBookmarks_attachedBy :: attached_by

record bookmarkLists_row =
  bookmarkLists_id :: ident
  bookmarkLists_name :: string
  bookmarkLists_icon :: string
  bookmarkLists_createdAt :: timestamp
  bookmarkLists_userId :: ident
  bookmarkLists_parentId :: "ident option"

record bookmarksInLists_row =
  bookmarksInLists_bookmarkId :: ident
  bookmarksInLists_listId :: ident
  bookmarksInLists_addedAt :: "timestamp option"

record customPrompts_row =
  customPrompts_id :: ident
  customPrompts_text :: string
  customPrompts_enabled :: bool
  customPrompts_appliesTo :: applies_to
  customPrompts_createdAt :: timestamp
  customPrompts_userId :: ident

record rssFeeds_row =
  rssFeeds_id :: ident
  rssFeeds_name :: string
  rssFeeds_url :: string
  rssFeeds_createdAt :: timestamp
  rssFeeds_lastFetchedAt :: "timestamp option"
  rssFeeds_lastFetchedStatus :: "task_status option"
  rssFeeds_userId :: ident

record rssFeedImports_row =
  rssFeedImports_id :: ident
  rssFeedImports_createdAt :: timestamp
  rssFeedImports_entryId :: string
  rssFeedImports_rssFeedId :: ident
  rssFeedImports_bookmarkId :: "ident option"

record config_row =
  config_key :: string
  config_value :: string

text \<open>
  A database state holds the rows of every table the schema exports, under the name of
  the exported constant. A table is the list of its rows in insertion order.
\<close>

record db =
  users :: "users_row list"
  accounts :: "accounts_row list"
  sessions :: "sessions_row list"
  verificationTokens :: "verificationTokens_row list"
  apiKeys :: "apiKeys_row list"
  bookmarks :: "bookmarks_row list"
  bookmarkLinks :: "bookmarkLinks_row list"
  assets :: "assets_row list"
  bookmarkTexts :: "bookmarkTexts_row list"
  bookmarkAssets :: "bookmarkAssets_row list"
  bookmarkTags :: "bookmarkTags_row list"
  tagsOnBookmarks :: "tagsOnBookmarks_row list"
  bookmarkLists :: "bookmarkLists_row list"
  bookmarksInLists :: "bookmarksInLists_row list"
  customPrompts :: "customPrompts_row list"
  rssFeedsTable :: "rssFeeds_row list"
  rssFeedImportsTable :: "rssFeedImports_row list"
  config :: "config_row list"

definition empty_db :: db where
  "empty_db = \<lparr>users = [], accounts = [], sessions = [], verificationTokens = [],
     apiKeys = [], bookmarks = [], bookmarkLinks = [], assets = [], bookmarkTexts = [],
     bookmarkAssets = [], bookmarkTags = [], tagsOnBookmarks = [], bookmarkLists = [],
     bookmarksInLists = [], customPrompts = [], rssFeedsTable = [],
     rssFeedImportsTable = [], config = []\<rparr>"


section \<open>The constraints the schema declares\<close>

text \<open>
  The declarations are read as the storage engine enforces them, foreign keys
  included. An \<^verbatim>\<open>index(...)\<close> declaration constrains nothing and has no counterpart
  here; neither has \<^verbatim>\<open>relations(...)\<close>, which only names joins for the query builder.
\<close>

text \<open>
  \<^verbatim>\<open>.primaryKey()\<close> on a column, or \<^verbatim>\<open>primaryKey({columns: [...]})\<close> on a tuple of
  columns: no two rows of the table agree on the key.
\<close>

definition pk_ok :: "db \<Rightarrow> bool" where
  "pk_ok s \<longleftrightarrow>
     distinct (map users_id (users s)) \<and>
     distinct (map (\<lambda>r. (accounts_provider r, accounts_providerAccountId r)) (accounts s)) \<and>
     distinct (map sessions_sessionToken (sessions s)) \<and>
     distinct (map (\<lambda>r. (verificationTokens_identifier r, verificationTokens_token r))
                 (verificationTokens s)) \<and>
     distinct (map apiKeys_id (apiKeys s)) \<and>
     distinct (map bookmarks_id (bookmarks s)) \<and>
     distinct (map bookmarkLinks_id (bookmarkLinks s)) \<and>
     distinct (map assets_id (assets s)) \<and>
     distinct (map bookmarkTexts_id (bookmarkTexts s)) \<and>
     distinct (map bookmarkAssets_id (bookmarkAssets s)) \<and>
     distinct (map bookmarkTags_id (bookmarkTags s)) \<and>
     distinct (map (\<lambda>r. (tagsOnBookmarks_bookmarkId r, tagsOnBookmarks_tagId r))
                 (tagsOnBookmarks s)) \<and>
     distinct (map bookmarkLists_id (bookmarkLists s)) \<and>
     distinct (map (\<lambda>r. (bookmarksInLists_bookmarkId r, bookmarksInLists_listId r))
                 (bookmarksInLists s)) \<and>
     distinct (map customPrompts_id (customPrompts s)) \<and>
     distinct (map rssFeeds_id (rssFeedsTable s)) \<and>
     distinct (map rssFeedImports_id (rssFeedImportsTable s)) \<and>
     distinct (map config_key (config s))"

text \<open>
  \<^verbatim>\<open>.unique()\<close> on a column, or \<^verbatim>\<open>unique().on(...)\<close> on a tuple of columns. All the
  columns concerned are \<^verbatim>\<open>.notNull()\<close>, so the SQL rule that NULLs never collide
  does not come into play.
\<close>

definition unique_ok :: "db \<Rightarrow> bool" where
  "unique_ok s \<longleftrightarrow>
     distinct (map users_email (users s)) \<and>
     distinct (map apiKeys_keyId (apiKeys s)) \<and>
     distinct (map (\<lambda>r. (apiKeys_name r, apiKeys_userId r)) (apiKeys s)) \<and>
     distinct (map (\<lambda>r. (bookmarkTags_userId r, bookmarkTags_name r)) (bookmarkTags s)) \<and>
     distinct (map (\<lambda>r. (rssFeedImports_rssFeedId r, rssFeedImports_entryId r))
                 (rssFeedImportsTable s))"

text \<open>
  \<^verbatim>\<open>.references(() => t.c, ...)\<close>: the value of the column, unless it is NULL, is the
  value of column \<open>c\<close> in some row of table \<open>t\<close>.
\<close>

definition refs_in :: "'a list \<Rightarrow> 'a list \<Rightarrow> bool" where
  "refs_in fks keys \<longleftrightarrow> (\<forall>k \<in> set fks. k \<in> set keys)"

definition non_null :: "'a option list \<Rightarrow> 'a list" where
  "non_null xs = concat (map (\<lambda>x. case x of None \<Rightarrow> [] | Some v \<Rightarrow> [v]) xs)"

definition fk_ok :: "db \<Rightarrow> bool" where
  "fk_ok s \<longleftrightarrow>
     refs_in (map accounts_userId (accounts s)) (map users_id (users s)) \<and>
     refs_in (map sessions_userId (sessions s)) (map users_id (users s)) \<and>
     refs_in (map apiKeys_userId (apiKeys s)) (map users_id (users s)) \<and>
     refs_in (map bookmarks_userId (bookmarks s)) (map users_id (users s)) \<and>
     refs_in (map bookmarkLinks_id (bookmarkLinks s)) (map bookmarks_id (bookmarks s)) \<and>
     refs_in (non_null (map assets_bookmarkId (assets s))) (map bookmarks_id (bookmarks s)) \<and>
     refs_in (map assets_userId (assets s)) (map users_id (users s)) \<and>
     refs_in (map bookmarkTexts_id (bookmarkTexts s)) (map bookmarks_id (bookmarks s)) \<and>
     refs_in (map bookmarkAssets_id (bookmarkAssets s)) (map bookmarks_id (bookmarks s)) \<and>
     refs_in (map bookmarkTags_userId (bookmarkTags s)) (map users_id (users s)) \<and>
     refs_in (map tagsOnBookmarks_bookmarkId (tagsOnBookmarks s))
             (map bookmarks_id (bookmarks s)) \<and>
     refs_in (map tagsOnBookmarks_tagId (tagsOnBookmarks s))
             (map bookmarkTags_id (bookmarkTags s)) \<and>
     refs_in (map bookmarkLists_userId (bookmarkLists s)) (map users_id (users s)) \<and>
     refs_in (non_null (map bookmarkLists_parentId (bookmarkLists s)))
             (map bookmarkLists_id (bookmarkLists s)) \<and>
     refs_in (map bookmarksInLists_bookmarkId (bookmarksInLists s))
             (map bookmarks_id (bookmarks s)) \<and>
     refs_in (map bookmarksInLists_listId (bookmarksInLists s))
             (map bookmarkLists_id (bookmarkLists s)) \<and>
     refs_in (map customPrompts_userId (customPrompts s)) (map users_id (users s)) \<and>
     refs_in (map rssFeeds_userId (rssFeedsTable s)) (map users_id (users s)) \<and>
     refs_in (map rssFeedImports_rssFeedId (rssFeedImportsTable s))
             (map rssFeeds_id (rssFeedsTable s)) \<and>
     refs_in (non_null (map rssFeedImports_bookmarkId (rssFeedImportsTable s)))
             (map bookmarks_id (bookmarks s))"

text \<open>
  A state satisfies the schema when it satisfies every declared constraint. The
  not-null constraints are in the row types.
\<close>

definition valid :: "db \<Rightarrow> bool" where
  "valid s \<longleftrightarrow> pk_ok s \<and> unique_ok s \<and> fk_ok s"

section \<open>Deleting rows: the declared \<^verbatim>\<open>onDelete\<close> actions\<close>

text \<open>
  \<^verbatim>\<open>onDelete: "cascade"\<close> removes the rows that reference a removed row;
  \<^verbatim>\<open>onDelete: "set null"\<close> keeps them and stores NULL in the referencing column.
  \<open>gone\<close> is the list of keys of the rows being removed.
\<close>

definition in_gone :: "'a list \<Rightarrow> 'a option \<Rightarrow> bool" where
  "in_gone gone x = (case x of None \<Rightarrow> False | Some v \<Rightarrow> v \<in> set gone)"

definition delete_bookmarks_where :: "(bookmarks_row \<Rightarrow> bool) \<Rightarrow> db \<Rightarrow> db" where
  "delete_bookmarks_where P s =
     (let gone = map bookmarks_id (filter P (bookmarks s)) in
      s\<lparr>bookmarks := filter (\<lambda>r. \<not> P r) (bookmarks s),
        bookmarkLinks := filter (\<lambda>r. bookmarkLinks_id r \<notin> set gone) (bookmarkLinks s),
        assets := filter (\<lambda>r. \<not> in_gone gone (assets_bookmarkId r)) (assets s),
        bookmarkTexts := filter (\<lambda>r. bookmarkTexts_id r \<notin> set gone) (bookmarkTexts s),
        bookmarkAssets := filter (\<lambda>r. bookmarkAssets_id r \<notin> set gone) (bookmarkAssets s),
        tagsOnBookmarks :=
          filter (\<lambda>r. tagsOnBookmarks_bookmarkId r \<notin> set gone) (tagsOnBookmarks s),
        bookmarksInLists :=
          filter (\<lambda>r. bookmarksInLists_bookmarkId r \<notin> set gone) (bookmarksInLists s),
        rssFeedImportsTable :=
          map (\<lambda>r. if in_gone gone (rssFeedImports_bookmarkId r)
                    then r\<lparr>rssFeedImports_bookmarkId := None\<rparr> else r)
              (rssFeedImportsTable s)\<rparr>)"

definition delete_bookmarkTags_where :: "(bookmarkTags_row \<Rightarrow> bool) \<Rightarrow> db \<Rightarrow> db" where
  "delete_bookmarkTags_where P s =
     (let gone = map bookmarkTags_id (filter P (bookmarkTags s)) in
      s\<lparr>bookmarkTags := filter (\<lambda>r. \<not> P r) (bookmarkTags s),
        tagsOnBookmarks :=
          filter (\<lambda>r. tagsOnBookmarks_tagId r \<notin> set gone) (tagsOnBookmarks s)\<rparr>)"

definition delete_bookmarkLists_where :: "(bookmarkLists_row \<Rightarrow> bool) \<Rightarrow> db \<Rightarrow> db" where
  "delete_bookmarkLists_where P s =
     (let gone = map bookmarkLists_id (filter P (bookmarkLists s)) in
      s\<lparr>bookmarkLists :=
          map (\<lambda>r. if in_gone gone (bookmarkLists_parentId r)
                    then r\<lparr>bookmarkLists_parentId := None\<rparr> else r)
              (filter (\<lambda>r. \<not> P r) (bookmarkLists s)),
        bookmarksInLists :=
          filter (\<lambda>r. bookmarksInLists_listId r \<notin> set gone) (bookmarksInLists s)\<rparr>)"

definition delete_rssFeeds_where :: "(rssFeeds_row \<Rightarrow> bool) \<Rightarrow> db \<Rightarrow> db" where
  "delete_rssFeeds_where P s =
     (let gone = map rssFeeds_id (filter P (rssFeedsTable s)) in
      s\<lparr>rssFeedsTable := filter (\<lambda>r. \<not> P r) (rssFeedsTable s),
        rssFeedImportsTable :=
          filter (\<lambda>r. rssFeedImports_rssFeedId r \<notin> set gone) (rssFeedImportsTable s)\<rparr>)"

text \<open>
  Removing users removes the rows of the nine tables whose \<open>userId\<close> references
  \<open>users.id\<close> with \<^verbatim>\<open>onDelete: "cascade"\<close>; the removal of bookmarks, tags, lists and
  feeds cascades further, as above.
\<close>

definition delete_users_where :: "(users_row \<Rightarrow> bool) \<Rightarrow> db \<Rightarrow> db" where
  "delete_users_where P s =
     (let gone = map users_id (filter P (users s)) in
      delete_rssFeeds_where (\<lambda>r. rssFeeds_userId r \<in> set gone)
        (delete_bookmarkLists_where (\<lambda>r. bookmarkLists_userId r \<in> set gone)
          (delete_bookmarkTags_where (\<lambda>r. bookmarkTags_userId r \<in> set gone)
            (delete_bookmarks_where (\<lambda>r. bookmarks_userId r \<in> set gone)
              (s\<lparr>users := filter (\<lambda>r. \<not> P r) (users s),
                 accounts := filter (\<lambda>r. accounts_userId r \<notin> set gone) (accounts s),
                 sessions := filter (\<lambda>r. sessions_userId r \<notin> set gone) (sessions s),
                 apiKeys := filter (\<lambda>r. apiKeys_userId r \<notin> set gone) (apiKeys s),
                 assets := filter (\<lambda>r. assets_userId r \<notin> set gone) (assets s),
                 customPrompts :=
                   filter (\<lambda>r. customPrompts_userId r \<notin> set gone) (customPrompts s)\<rparr>)))))"

definition delete_user :: "ident \<Rightarrow> db \<Rightarrow> db" where
  "delete_user uid s = delete_users_where (\<lambda>r. users_id r = uid) s"

definition delete_bookmark :: "ident \<Rightarrow> db \<Rightarrow> db" where
  "delete_bookmark bid s = delete_bookmarks_where (\<lambda>r. bookmarks_id r = bid) s"

definition delete_bookmarkList :: "ident \<Rightarrow> db \<Rightarrow> db" where
  "delete_bookmarkList lid s = delete_bookmarkLists_where (\<lambda>r. bookmarkLists_id r = lid) s"

section \<open>Inserting rows\<close>

text \<open>
  An insert is refused when the new row breaks a declared constraint; the state is then
  unchanged and the error is the result.
\<close>

datatype db_error = PrimaryKeyViolation | UniqueViolation | ForeignKeyViolation

definition dangling :: "'a list \<Rightarrow> 'a option \<Rightarrow> bool" where
  "dangling keys x = (case x of None \<Rightarrow> False | Some v \<Rightarrow> v \<notin> set keys)"

text \<open>
  The values an insert into \<open>bookmarks\<close> may give. A column with \<^verbatim>\<open>.default(...)\<close>
  or \<^verbatim>\<open>.$defaultFn(...)\<close> may be omitted (\<open>None\<close>), and so may a nullable column.
  \<open>taggingStatus\<close> is both nullable and defaulted: it is omitted (\<open>None\<close>), given
  as NULL (\<open>Some None\<close>) or given a value.
\<close>

record bookmarks_new =
  new_id :: "ident option"
  new_createdAt :: "timestamp option"
  new_title :: "string option"
  new_archived :: "bool option"
  new_favourited :: "bool option"
  new_userId :: ident
  new_taggingStatus :: "task_status option option"
  new_summary :: "string option"
  new_note :: "string option"
  new_type :: BookmarkTypes

text \<open>
  The stored row: \<open>fresh\<close> is what \<^verbatim>\<open>createId()\<close> returns and \<open>now\<close> what
  \<^verbatim>\<open>new Date()\<close> returns at the time of the insert.
\<close>

definition bookmarks_values :: "ident \<Rightarrow> timestamp \<Rightarrow> bookmarks_new \<Rightarrow> bookmarks_row" where
  "bookmarks_values fresh now v =
     \<lparr>bookmarks_id = (case new_id v of None \<Rightarrow> fresh | Some i \<Rightarrow> i),
      bookmarks_createdAt = (case new_createdAt v of None \<Rightarrow> now | Some t \<Rightarrow> t),
      bookmarks_title = new_title v,
      bookmarks_archived = (case new_archived v of None \<Rightarrow> False | Some b \<Rightarrow> b),
      bookmarks_favourited = (case new_favourited v of None \<Rightarrow> False | Some b \<Rightarrow> b),
      bookmarks_userId = new_userId v,
      bookmarks_taggingStatus =
        (case new_taggingStatus v of None \<Rightarrow> Some Pending | Some t \<Rightarrow> t),
      bookmarks_summary = new_summary v,
      bookmarks_note = new_note v,
      bookmarks_type = new_type v\<rparr>"

definition insert_bookmarks ::
  "ident \<Rightarrow> timestamp \<Rightarrow> bookmarks_new \<Rightarrow> db \<Rightarrow> db_error + db" where
  "insert_bookmarks fresh now v s =
     (let r = bookmarks_values fresh now v in
      if bookmarks_id r \<in> set (map bookmarks_id (bookmarks s)) then Inl PrimaryKeyViolation
      else if bookmarks_userId r \<notin> set (map users_id (users s)) then Inl ForeignKeyViolation
      else Inr (s\<lparr>bookmarks := bookmarks s @ [r]\<rparr>))"

definition insert_tagsOnBookmarks :: "tagsOnBookmarks_row \<Rightarrow> db \<Rightarrow> db_error + db" where
  "insert_tagsOnBookmarks r s =
     (if (tagsOnBookmarks_bookmarkId r, tagsOnBookmarks_tagId r)
           \<in> set (map (\<lambda>x. (tagsOnBookmarks_bookmarkId x, tagsOnBookmarks_tagId x))
                      (tagsOnBookmarks s))
      then Inl PrimaryKeyViolation
      else if tagsOnBookmarks_bookmarkId r \<notin> set (map bookmarks_id (bookmarks s))
              \<or> tagsOnBookmarks_tagId r \<notin> set (map bookmarkTags_id (bookmarkTags s))
      then Inl ForeignKeyViolation
      else Inr (s\<lparr>tagsOnBookmarks := tagsOnBookmarks s @ [r]\<rparr>))"

definition insert_rssFeedImports :: "rssFeedImports_row \<Rightarrow> db \<Rightarrow> db_error + db" where
  "insert_rssFeedImports r s =
     (if rssFeedImports_id r \<in> set (map rssFeedImports_id (rssFeedImportsTable s))
      then Inl PrimaryKeyViolation
      else if (rssFeedImports_rssFeedId r, rssFeedImports_entryId r)
                \<in> set (map (\<lambda>x. (rssFeedImports_rssFeedId x, rssFeedImports_entryId x))
                           (rssFeedImportsTable s))
      then Inl UniqueViolation
      else if rssFeedImports_rssFeedId r \<notin> set (map rssFeeds_id (rssFeedsTable s))
              \<or> dangling (map bookmarks_id (bookmarks s)) (rssFeedImports_bookmarkId r)
      then Inl ForeignKeyViolation
      else Inr (s\<lparr>rssFeedImportsTable := rssFeedImportsTable s @ [r]\<rparr>))"

section \<open>The list hierarchy\<close>

text \<open>
  \<open>parent_of\<close> reads the \<open>parentId\<close> of the list with a given id; \<open>ancestors n\<close>
  follows the chain of parents for at most \<open>n\<close> steps and returns the ids it meets.
\<close>

definition parent_of :: "db \<Rightarrow> ident \<Rightarrow> ident option" where
  "parent_of s lid =
     (case find (\<lambda>r. bookmarkLists_id r = lid) (bookmarkLists s) of
        None \<Rightarrow> None
      | Some r \<Rightarrow> bookmarkLists_parentId r)"

fun ancestors :: "nat \<Rightarrow> db \<Rightarrow> ident \<Rightarrow> ident list" where
  "ancestors 0 s lid = []"
| "ancestors (Suc n) s lid =
     (case parent_of s lid of None \<Rightarrow> [] | Some p \<Rightarrow> p # ancestors n s p)"

section \<open>Counting rows by key\<close>

text \<open>
  \<open>rows_keyed key rows k\<close> is the number of rows whose key column holds \<open>k\<close>;
  \<open>sub_records s bid\<close> is the number of rows of the three extension tables
  \<open>bookmarkLinks\<close>, \<open>bookmarkTexts\<close> and \<open>bookmarkAssets\<close> keyed by the bookmark id
  \<open>bid\<close>; \<open>all_ids\<close> lists the \<open>id\<close> column of every table that has one, table
  after table in the order of the source.
\<close>

definition rows_keyed :: "('r \<Rightarrow> 'k) \<Rightarrow> 'r list \<Rightarrow> 'k \<Rightarrow> nat" where
  "rows_keyed key rows k = length (filter (\<lambda>r. key r = k) rows)"

definition sub_records :: "db \<Rightarrow> ident \<Rightarrow> nat" where
  "sub_records s bid =
     rows_keyed bookmarkLinks_id (bookmarkLinks s) bid
     + rows_keyed bookmarkTexts_id (bookmarkTexts s) bid
     + rows_keyed bookmarkAssets_id (bookmarkAssets s) bid"

definition all_ids :: "db \<Rightarrow> ident list" where
  "all_ids s =
     map users_id (users s) @ map apiKeys_id (apiKeys s) @ map bookmarks_id (bookmarks s)
     @ map bookmarkLinks_id (bookmarkLinks s) @ map assets_id (assets s)
     @ map bookmarkTexts_id (bookmarkTexts s) @ map bookmarkAssets_id (bookmarkAssets s)
     @ map bookmarkTags_id (bookmarkTags s) @ map bookmarkLists_id (bookmarkLists s)
     @ map customPrompts_id (customPrompts s) @ map rssFeeds_id (rssFeedsTable s)
     @ map rssFeedImports_id (rssFeedImportsTable s)"

section \<open>The browser extension: \<^verbatim>\<open>SavePage.runSave\<close>\<close>

text \<open>
  Of a \<^verbatim>\<open>chrome.tabs.Tab\<close> the function reads the optional \<open>url\<close> only. The state of
  the component is the \<open>error\<close> string of \<^verbatim>\<open>useState\<close> and the arguments of the
  calls made to \<^verbatim>\<open>createBookmark\<close> so far, oldest first.
\<close>

record Tab =
  tab_url :: "string option"

record createBookmark_args =
  arg_type :: string
  arg_url :: string

record SavePage_state =
  sp_error :: "string option"
  createBookmark_calls :: "createBookmark_args list"

text \<open>
  \<^verbatim>\<open>currentTab?.url\<close> in a condition: \<^verbatim>\<open>undefined\<close> (no tab, or a tab without the
  property) and the empty string are falsy, every other string is truthy.
\<close>

definition optional_url :: "Tab list \<Rightarrow> string option" where
  "optional_url tabs = (case tabs of [] \<Rightarrow> None | currentTab # _ \<Rightarrow> tab_url currentTab)"

definition runSave :: "Tab list \<Rightarrow> SavePage_state \<Rightarrow> SavePage_state" where
  "runSave tabs st =
     (case optional_url tabs of
        None \<Rightarrow> st\<lparr>sp_error := Some ''Couldn't find the URL of the current tab''\<rparr>
      | Some currentUrl \<Rightarrow>
          if currentUrl = []
          then st\<lparr>sp_error := Some ''Couldn't find the URL of the current tab''\<rparr>
          else st\<lparr>createBookmark_calls :=
                    createBookmark_calls st @ [\<lparr>arg_type = ''link'', arg_url = currentUrl\<rparr>]\<rparr>)"

section \<open>Example states\<close>

text \<open>Rows with every optional column NULL, used to build small concrete states.\<close>

definition a_user :: "ident \<Rightarrow> string \<Rightarrow> users_row" where
  "a_user i e = \<lparr>users_id = i, users_name = ''name'', users_email = e,
     users_emailVerified = None, users_image = None, users_password = None,
     users_role = Some RoleUser\<rparr>"

definition an_apiKey :: "ident \<Rightarrow> ident \<Rightarrow> apiKeys_row" where
  "an_apiKey i u = \<lparr>apiKeys_id = i, apiKeys_name = ''key'', apiKeys_createdAt = 0,
     apiKeys_keyId = i, apiKeys_keyHash = ''hash'', apiKeys_userId = u\<rparr>"

definition a_bookmark :: "ident \<Rightarrow> ident \<Rightarrow> BookmarkTypes \<Rightarrow> bookmarks_row" where
  "a_bookmark i u t = \<lparr>bookmarks_id = i, bookmarks_createdAt = 0, bookmarks_title = None,
     bookmarks_archived = False, bookmarks_favourited = False, bookmarks_userId = u,
     bookmarks_taggingStatus = Some Pending, bookmarks_summary = None,
     bookmarks_note = None, bookmarks_type = t\<rparr>"

definition a_link :: "ident \<Rightarrow> bookmarkLinks_row" where
  "a_link i = \<lparr>bookmarkLinks_id = i, bookmarkLinks_url = ''https://example.com'',
     bookmarkLinks_title = None, bookmarkLinks_description = None,
     bookmarkLinks_imageUrl = None, bookmarkLinks_favicon = None,
     bookmarkLinks_content = None, bookmarkLinks_htmlContent = None,
     bookmarkLinks_crawledAt = None, bookmarkLinks_crawlStatus = Some Pending\<rparr>"

definition a_text :: "ident \<Rightarrow> bookmarkTexts_row" where
  "a_text i = \<lparr>bookmarkTexts_id = i, bookmarkTexts_text = Some ''note'',
     bookmarkTexts_sourceUrl = None\<rparr>"

definition a_bookmarkAsset :: "ident \<Rightarrow> bookmarkAssets_row" where
  "a_bookmarkAsset i = \<lparr>bookmarkAssets_id = i, bookmarkAssets_assetType = KindPdf,
     bookmarkAssets_assetId = ''file'', bookmarkAssets_content = None,
     bookmarkAssets_metadata = None, bookmarkAssets_fileName = None,
     bookmarkAssets_sourceUrl = None\<rparr>"

definition an_asset :: "ident \<Rightarrow> ident option \<Rightarrow> ident \<Rightarrow> assets_row" where
  "an_asset i b u = \<lparr>assets_id = i, assets_assetType = UNKNOWN, assets_size = 0,
     assets_contentType = None, assets_fileName = None, assets_bookmarkId = b,
     assets_userId = u\<rparr>"

definition a_tag :: "ident \<Rightarrow> string \<Rightarrow> ident \<Rightarrow> bookmarkTags_row" where
  "a_tag i n u = \<lparr>bookmarkTags_id = i, bookmarkTags_name = n, bookmarkTags_createdAt = 0,
     bookmarkTags_userId = u\<rparr>"

definition a_tagging :: "ident \<Rightarrow> ident \<Rightarrow> tagsOnBookmarks_row" where
  "a_tagging b t = \<lparr>tagsOnBookmarks_bookmarkId = b, tagsOnBookmarks_tagId = t,
     tagsOnBookmarks_attachedAt = Some 0, tagsOnBookmarks_attachedBy = ByHuman\<rparr>"

definition a_list :: "ident \<Rightarrow> ident \<Rightarrow> ident option \<Rightarrow> bookmarkLists_row" where
  "a_list i u p = \<lparr>bookmarkLists_id = i, bookmarkLists_name = ''list'',
     bookmarkLists_icon = ''icon'', bookmarkLists_createdAt = 0, bookmarkLists_userId = u,
     bookmarkLists_parentId = p\<rparr>"

definition a_membership :: "ident \<Rightarrow> ident \<Rightarrow> bookmarksInLists_row" where
  "a_membership b l = \<lparr>bookmarksInLists_bookmarkId = b, bookmarksInLists_listId = l,
     bookmarksInLists_addedAt = Some 0\<rparr>"

definition a_prompt :: "ident \<Rightarrow> ident \<Rightarrow> customPrompts_row" where
  "a_prompt i u = \<lparr>customPrompts_id = i, customPrompts_text = ''prompt'',
     customPrompts_enabled = True, customPrompts_appliesTo = AppliesAll,
     customPrompts_createdAt = 0, customPrompts_userId = u\<rparr>"

definition a_feed :: "ident \<Rightarrow> ident \<Rightarrow> rssFeeds_row" where
  "a_feed i u = \<lparr>rssFeeds_id = i, rssFeeds_name = ''feed'',
     rssFeeds_url = ''https://example.com/rss'', rssFeeds_createdAt = 0,
     rssFeeds_lastFetchedAt = None, rssFeeds_lastFetchedStatus = Some Pending,
     rssFeeds_userId = u\<rparr>"

definition an_import :: "ident \<Rightarrow> ident \<Rightarrow> string \<Rightarrow> ident option \<Rightarrow> rssFeedImports_row" where
  "an_import i f e b = \<lparr>rssFeedImports_id = i, rssFeedImports_createdAt = 0,
     rssFeedImports_entryId = e, rssFeedImports_rssFeedId = f,
     rssFeedImports_bookmarkId = b\<rparr>"

text \<open>
  Two users; each owns an API key, a bookmark, an asset, a tag, a list, a prompt and a
  feed. The list of the second user is a child of the list of the first.
\<close>

definition db_two_users :: db where
  "db_two_users = empty_db
     \<lparr>users := [a_user ''u1'' ''a@example.com'', a_user ''u2'' ''b@example.com''],
      apiKeys := [an_apiKey ''k1'' ''u1'', an_apiKey ''k2'' ''u2''],
      bookmarks := [a_bookmark ''b1'' ''u1'' LINK, a_bookmark ''b2'' ''u2'' TEXT],
      bookmarkLinks := [a_link ''b1''],
      assets := [an_asset ''a1'' (Some ''b1'') ''u1'', an_asset ''a2'' None ''u2''],
      bookmarkTexts := [a_text ''b2''],
      bookmarkTags := [a_tag ''t1'' ''news'' ''u1'', a_tag ''t2'' ''news'' ''u2''],
      tagsOnBookmarks := [a_tagging ''b1'' ''t1'', a_tagging ''b2'' ''t2''],
      bookmarkLists := [a_list ''l1'' ''u1'' None, a_list ''l2'' ''u2'' (Some ''l1'')],
      bookmarksInLists := [a_membership ''b1'' ''l1'', a_membership ''b2'' ''l2''],
      customPrompts := [a_prompt ''p1'' ''u1'', a_prompt ''p2'' ''u2''],
      rssFeedsTable := [a_feed ''f1'' ''u1'', a_feed ''f2'' ''u2''],
      rssFeedImportsTable :=
        [an_import ''i1'' ''f1'' ''e1'' (Some ''b1''), an_import ''i2'' ''f2'' ''e1'' None]\<rparr>"

text \<open>One bookmark that has a row in \<open>bookmarkLinks\<close> and a row in \<open>bookmarkTexts\<close>.\<close>

definition db_link_and_text :: db where
  "db_link_and_text = empty_db
     \<lparr>users := [a_user ''u1'' ''a@example.com''],
      bookmarks := [a_bookmark ''b1'' ''u1'' LINK],
      bookmarkLinks := [a_link ''b1''],
      bookmarkTexts := [a_text ''b1'']\<rparr>"

text \<open>A list that is its own parent, and two lists that are each other's parent.\<close>

definition db_self_parent :: db where
  "db_self_parent = empty_db
     \<lparr>users := [a_user ''u1'' ''a@example.com''],
      bookmarkLists := [a_list ''l1'' ''u1'' (Some ''l1'')]\<rparr>"

definition db_two_cycle :: db where
  "db_two_cycle = empty_db
     \<lparr>users := [a_user ''u1'' ''a@example.com''],
      bookmarkLists := [a_list ''l1'' ''u1'' (Some ''l2''), a_list ''l2'' ''u1'' (Some ''l1'')]\<rparr>"

text \<open>An insert into \<open>bookmarks\<close> that gives the two required columns only.\<close>

definition a_new_bookmark :: "ident \<Rightarrow> BookmarkTypes \<Rightarrow> bookmarks_new" where
  "a_new_bookmark u t = \<lparr>new_id = None, new_createdAt = None, new_title = None,
     new_archived = None, new_favourited = None, new_userId = u,
     new_taggingStatus = None, new_summary = None, new_note = None, new_type = t\<rparr>"

text \<open>The component before \<open>runSave\<close> has run.\<close>

definition initial_SavePage :: SavePage_state where
  "initial_SavePage = \<lparr>sp_error = None, createBookmark_calls = []\<rparr>"

section \<open>Deleting a user\<close>

text \<open>What each step of the cascade leaves in the tables that carry a \<open>userId\<close>.\<close>

lemma delete_rssFeeds_where_frame:
  "bookmarks (delete_rssFeeds_where P s) = bookmarks s"
  "bookmarkTags (delete_rssFeeds_where P s) = bookmarkTags s"
  "bookmarkLists (delete_rssFeeds_where P s) = bookmarkLists s"
  "apiKeys (delete_rssFeeds_where P s) = apiKeys s"
  "assets (delete_rssFeeds_where P s) = assets s"
  "customPrompts (delete_rssFeeds_where P s) = customPrompts s"
  "rssFeedsTable (delete_rssFeeds_where P s) = filter (\<lambda>r. \<not> P r) (rssFeedsTable s)"
  by (simp_all add: delete_rssFeeds_where_def Let_def)

lemma delete_bookmarkLists_where_frame:
  "bookmarks (delete_bookmarkLists_where P s) = bookmarks s"
  "bookmarkTags (delete_bookmarkLists_where P s) = bookmarkTags s"
  "apiKeys (delete_bookmarkLists_where P s) = apiKeys s"
  "assets (delete_bookmarkLists_where P s) = assets s"
  "customPrompts (delete_bookmarkLists_where P s) = customPrompts s"
  "rssFeedsTable (delete_bookmarkLists_where P s) = rssFeedsTable s"
  by (simp_all add: delete_bookmarkLists_where_def Let_def)

lemma delete_bookmarkTags_where_frame:
  "bookmarks (delete_bookmarkTags_where P s) = bookmarks s"
  "bookmarkTags (delete_bookmarkTags_where P s) = filter (\<lambda>r. \<not> P r) (bookmarkTags s)"
  "bookmarkLists (delete_bookmarkTags_where P s) = bookmarkLists s"
  "apiKeys (delete_bookmarkTags_where P s) = apiKeys s"
  "assets (delete_bookmarkTags_where P s) = assets s"
  "customPrompts (delete_bookmarkTags_where P s) = customPrompts s"
  "rssFeedsTable (delete_bookmarkTags_where P s) = rssFeedsTable s"
  by (simp_all add: delete_bookmarkTags_where_def Let_def)

lemma delete_bookmarks_where_frame:
  "bookmarks (delete_bookmarks_where P s) = filter (\<lambda>r. \<not> P r) (bookmarks s)"
  "bookmarkTags (delete_bookmarks_where P s) = bookmarkTags s"
  "bookmarkLists (delete_bookmarks_where P s) = bookmarkLists s"
  "apiKeys (delete_bookmarks_where P s) = apiKeys s"
  "customPrompts (delete_bookmarks_where P s) = customPrompts s"
  "rssFeedsTable (delete_bookmarks_where P s) = rssFeedsTable s"
  by (simp_all add: delete_bookmarks_where_def Let_def)


lemma bookmarkLists_delete_bookmarkLists_where:
  "bookmarkLists (delete_bookmarkLists_where P s) =
     map (\<lambda>r. if in_gone (map bookmarkLists_id (filter P (bookmarkLists s)))
                     (bookmarkLists_parentId r)
               then r\<lparr>bookmarkLists_parentId := None\<rparr> else r)
         (filter (\<lambda>r. \<not> P r) (bookmarkLists s))"
  by (simp add: delete_bookmarkLists_where_def Let_def)

lemma bookmarkLists_delete_owner:
  assumes "r \<in> set (bookmarkLists (delete_bookmarkLists_where P s))"
  shows "\<exists>r0 \<in> set (bookmarkLists s). \<not> P r0 \<and> bookmarkLists_userId r = bookmarkLists_userId r0"
  using assms by (auto simp: bookmarkLists_delete_bookmarkLists_where)

lemma assets_delete_bookmarks_where:
  "assets (delete_bookmarks_where P s) =
     filter (\<lambda>r. \<not> in_gone (map bookmarks_id (filter P (bookmarks s))) (assets_bookmarkId r))
       (assets s)"
  by (simp add: delete_bookmarks_where_def Let_def)

lemma users_step_frame:
  "bookmarks (s\<lparr>users := u, accounts := a, sessions := se, apiKeys := k, assets := as,
      customPrompts := c\<rparr>) = bookmarks s"
  "bookmarkTags (s\<lparr>users := u, accounts := a, sessions := se, apiKeys := k, assets := as,
      customPrompts := c\<rparr>) = bookmarkTags s"
  "bookmarkLists (s\<lparr>users := u, accounts := a, sessions := se, apiKeys := k, assets := as,
      customPrompts := c\<rparr>) = bookmarkLists s"
  "rssFeedsTable (s\<lparr>users := u, accounts := a, sessions := se, apiKeys := k, assets := as,
      customPrompts := c\<rparr>) = rssFeedsTable s"
  by simp_all

lemma bookmarks_delete_users_where:
  "bookmarks (delete_users_where P s) =
     filter (\<lambda>r. bookmarks_userId r \<notin> set (map users_id (filter P (users s)))) (bookmarks s)"
  unfolding delete_users_where_def Let_def
  by (simp only: delete_rssFeeds_where_frame delete_bookmarkLists_where_frame
      delete_bookmarkTags_where_frame delete_bookmarks_where_frame users_step_frame)

lemma bookmarkTags_delete_users_where:
  "bookmarkTags (delete_users_where P s) =
     filter (\<lambda>r. bookmarkTags_userId r \<notin> set (map users_id (filter P (users s))))
       (bookmarkTags s)"
  unfolding delete_users_where_def Let_def
  by (simp only: delete_rssFeeds_where_frame delete_bookmarkLists_where_frame
      delete_bookmarkTags_where_frame delete_bookmarks_where_frame users_step_frame)

lemma rssFeedsTable_delete_users_where:
  "rssFeedsTable (delete_users_where P s) =
     filter (\<lambda>r. rssFeeds_userId r \<notin> set (map users_id (filter P (users s))))
       (rssFeedsTable s)"
  unfolding delete_users_where_def Let_def
  by (simp only: delete_rssFeeds_where_frame delete_bookmarkLists_where_frame
      delete_bookmarkTags_where_frame delete_bookmarks_where_frame users_step_frame)

lemma apiKeys_delete_users_where:
  "apiKeys (delete_users_where P s) =
     filter (\<lambda>r. apiKeys_userId r \<notin> set (map users_id (filter P (users s)))) (apiKeys s)"
  unfolding delete_users_where_def Let_def
  by (simp add: delete_rssFeeds_where_frame delete_bookmarkLists_where_frame
      delete_bookmarkTags_where_frame delete_bookmarks_where_frame)

lemma customPrompts_delete_users_where:
  "customPrompts (delete_users_where P s) =
     filter (\<lambda>r. customPrompts_userId r \<notin> set (map users_id (filter P (users s))))
       (customPrompts s)"
  unfolding delete_users_where_def Let_def
  by (simp add: delete_rssFeeds_where_frame delete_bookmarkLists_where_frame
      delete_bookmarkTags_where_frame delete_bookmarks_where_frame)

lemma assets_delete_users_where:
  "set (assets (delete_users_where P s)) \<subseteq>
     {r \<in> set (assets s). assets_userId r \<notin> set (map users_id (filter P (users s)))}"
  unfolding delete_users_where_def Let_def
  by (auto simp add: delete_rssFeeds_where_frame delete_bookmarkLists_where_frame
      delete_bookmarkTags_where_frame assets_delete_bookmarks_where)

lemma bookmarkLists_delete_users_where:
  assumes "r \<in> set (bookmarkLists (delete_users_where P s))"
  shows "\<exists>r0 \<in> set (bookmarkLists s).
           bookmarkLists_userId r0 \<notin> set (map users_id (filter P (users s))) \<and>
           bookmarkLists_userId r = bookmarkLists_userId r0"
  using assms unfolding delete_users_where_def Let_def
  by (simp only: delete_rssFeeds_where_frame)
     (drule bookmarkLists_delete_owner,
      simp only: delete_bookmarkTags_where_frame delete_bookmarks_where_frame users_step_frame)


lemma owner_not_gone:
  assumes "refs_in (map owner rows) (map users_id (users s))"
    and "r \<in> set rows"
    and "owner r \<notin> set (map users_id (filter (\<lambda>u. users_id u = uid) (users s)))"
  shows "owner r \<noteq> uid"
proof
  assume "owner r = uid"
  with assms(1,2) have "uid \<in> set (map users_id (users s))"
    unfolding refs_in_def by auto
  then have "uid \<in> set (map users_id (filter (\<lambda>u. users_id u = uid) (users s)))"
    by auto
  with assms(3) \<open>owner r = uid\<close> show False by simp
qed

text \<open>
  Claim C1. In a state that satisfies the schema, deleting a user leaves no row of
  \<open>bookmarks\<close>, \<open>bookmarkTags\<close>, \<open>bookmarkLists\<close>, \<open>apiKeys\<close>, \<open>assets\<close>,
  \<open>customPrompts\<close> or \<open>rssFeeds\<close> whose \<open>userId\<close> is the id of the deleted user.
\<close>

theorem delete_user_removes_owned_rows:
  assumes "valid s"
  shows "uid \<notin> set (map bookmarks_userId (bookmarks (delete_user uid s))) \<and>
         uid \<notin> set (map bookmarkTags_userId (bookmarkTags (delete_user uid s))) \<and>
         uid \<notin> set (map bookmarkLists_userId (bookmarkLists (delete_user uid s))) \<and>
         uid \<notin> set (map apiKeys_userId (apiKeys (delete_user uid s))) \<and>
         uid \<notin> set (map assets_userId (assets (delete_user uid s))) \<and>
         uid \<notin> set (map customPrompts_userId (customPrompts (delete_user uid s))) \<and>
         uid \<notin> set (map rssFeeds_userId (rssFeedsTable (delete_user uid s)))"
proof -
  from assms have fk: "fk_ok s" by (simp add: valid_def)
  have b: "\<forall>r \<in> set (bookmarks (delete_user uid s)). bookmarks_userId r \<noteq> uid"
  proof
    fix r assume "r \<in> set (bookmarks (delete_user uid s))"
    then have "r \<in> set (bookmarks s)"
      and "bookmarks_userId r \<notin> set (map users_id (filter (\<lambda>u. users_id u = uid) (users s)))"
      by (simp_all add: delete_user_def bookmarks_delete_users_where)
    moreover from fk have "refs_in (map bookmarks_userId (bookmarks s)) (map users_id (users s))"
      by (simp add: fk_ok_def)
    ultimately show "bookmarks_userId r \<noteq> uid" by (rule owner_not_gone [rotated])
  qed
  have t: "\<forall>r \<in> set (bookmarkTags (delete_user uid s)). bookmarkTags_userId r \<noteq> uid"
  proof
    fix r assume "r \<in> set (bookmarkTags (delete_user uid s))"
    then have "r \<in> set (bookmarkTags s)"
      and "bookmarkTags_userId r \<notin> set (map users_id (filter (\<lambda>u. users_id u = uid) (users s)))"
      by (simp_all add: delete_user_def bookmarkTags_delete_users_where)
    moreover from fk have "refs_in (map bookmarkTags_userId (bookmarkTags s)) (map users_id (users s))"
      by (simp add: fk_ok_def)
    ultimately show "bookmarkTags_userId r \<noteq> uid" by (rule owner_not_gone [rotated])
  qed
  have l: "\<forall>r \<in> set (bookmarkLists (delete_user uid s)). bookmarkLists_userId r \<noteq> uid"
  proof
    fix r assume "r \<in> set (bookmarkLists (delete_user uid s))"
    then obtain r0 where r0: "r0 \<in> set (bookmarkLists s)"
      and ng: "bookmarkLists_userId r0 \<notin> set (map users_id (filter (\<lambda>u. users_id u = uid) (users s)))"
      and eq: "bookmarkLists_userId r = bookmarkLists_userId r0"
      unfolding delete_user_def by (blast dest: bookmarkLists_delete_users_where)
    from fk have "refs_in (map bookmarkLists_userId (bookmarkLists s)) (map users_id (users s))"
      by (simp add: fk_ok_def)
    then have "bookmarkLists_userId r0 \<noteq> uid" using r0 ng by (rule owner_not_gone)
    with eq show "bookmarkLists_userId r \<noteq> uid" by simp
  qed
  have k: "\<forall>r \<in> set (apiKeys (delete_user uid s)). apiKeys_userId r \<noteq> uid"
  proof
    fix r assume "r \<in> set (apiKeys (delete_user uid s))"
    then have "r \<in> set (apiKeys s)"
      and "apiKeys_userId r \<notin> set (map users_id (filter (\<lambda>u. users_id u = uid) (users s)))"
      by (simp_all add: delete_user_def apiKeys_delete_users_where)
    moreover from fk have "refs_in (map apiKeys_userId (apiKeys s)) (map users_id (users s))"
      by (simp add: fk_ok_def)
    ultimately show "apiKeys_userId r \<noteq> uid" by (rule owner_not_gone [rotated])
  qed
  have a: "\<forall>r \<in> set (assets (delete_user uid s)). assets_userId r \<noteq> uid"
  proof
    fix r assume "r \<in> set (assets (delete_user uid s))"
    then have "r \<in> set (assets s)"
      and "assets_userId r \<notin> set (map users_id (filter (\<lambda>u. users_id u = uid) (users s)))"
      unfolding delete_user_def using assets_delete_users_where by blast+
    moreover from fk have "refs_in (map assets_userId (assets s)) (map users_id (users s))"
      by (simp add: fk_ok_def)
    ultimately show "assets_userId r \<noteq> uid" by (rule owner_not_gone [rotated])
  qed
  have p: "\<forall>r \<in> set (customPrompts (delete_user uid s)). customPrompts_userId r \<noteq> uid"
  proof
    fix r assume "r \<in> set (customPrompts (delete_user uid s))"
    then have "r \<in> set (customPrompts s)"
      and "customPrompts_userId r \<notin> set (map users_id (filter (\<lambda>u. users_id u = uid) (users s)))"
      by (simp_all add: delete_user_def customPrompts_delete_users_where)
    moreover from fk have "refs_in (map customPrompts_userId (customPrompts s)) (map users_id (users s))"
      by (simp add: fk_ok_def)
    ultimately show "customPrompts_userId r \<noteq> uid" by (rule owner_not_gone [rotated])
  qed
  have f: "\<forall>r \<in> set (rssFeedsTable (delete_user uid s)). rssFeeds_userId r \<noteq> uid"
  proof
    fix r assume "r \<in> set (rssFeedsTable (delete_user uid s))"
    then have "r \<in> set (rssFeedsTable s)"
      and "rssFeeds_userId r \<notin> set (map users_id (filter (\<lambda>u. users_id u = uid) (users s)))"
      by (simp_all add: delete_user_def rssFeedsTable_delete_users_where)
    moreover from fk have "refs_in (map rssFeeds_userId (rssFeedsTable s)) (map users_id (users s))"
      by (simp add: fk_ok_def)
    ultimately show "rssFeeds_userId r \<noteq> uid" by (rule owner_not_gone [rotated])
  qed
  from b t l k a p f show ?thesis by auto
qed

text \<open>The example state with two users satisfies the schema.\<close>

lemmas fixture_defs = a_user_def an_apiKey_def a_bookmark_def a_link_def a_text_def
  a_bookmarkAsset_def an_asset_def a_tag_def a_tagging_def a_list_def a_membership_def
  a_prompt_def a_feed_def an_import_def

lemma pk_ok_db_two_users: "pk_ok db_two_users"
  by (simp add: pk_ok_def db_two_users_def empty_db_def fixture_defs)

lemma unique_ok_db_two_users: "unique_ok db_two_users"
  by (simp add: unique_ok_def db_two_users_def empty_db_def fixture_defs)

lemma fk_ok_db_two_users: "fk_ok db_two_users"
  by (simp add: fk_ok_def refs_in_def non_null_def db_two_users_def empty_db_def fixture_defs)

lemma valid_db_two_users: "valid db_two_users"
  by (simp add: valid_def pk_ok_db_two_users unique_ok_db_two_users fk_ok_db_two_users)


lemma bookmarkLists_delete_users_where_eq:
  "bookmarkLists (delete_users_where P s) =
     map (\<lambda>r. if in_gone (map bookmarkLists_id
                    (filter (\<lambda>r. bookmarkLists_userId r \<in> set (map users_id (filter P (users s))))
                       (bookmarkLists s)))
                  (bookmarkLists_parentId r)
               then r\<lparr>bookmarkLists_parentId := None\<rparr> else r)
        (filter (\<lambda>r. \<not> bookmarkLists_userId r \<in> set (map users_id (filter P (users s))))
           (bookmarkLists s))"
  unfolding delete_users_where_def Let_def
  by (simp only: delete_rssFeeds_where_frame bookmarkLists_delete_bookmarkLists_where
      delete_bookmarkTags_where_frame delete_bookmarks_where_frame users_step_frame)

lemma assets_delete_users_where_eq:
  "assets (delete_users_where P s) =
     filter (\<lambda>r. \<not> in_gone (map bookmarks_id
                     (filter (\<lambda>r. bookmarks_userId r \<in> set (map users_id (filter P (users s))))
                        (bookmarks s)))
                   (assets_bookmarkId r))
       (filter (\<lambda>r. assets_userId r \<notin> set (map users_id (filter P (users s)))) (assets s))"
  unfolding delete_users_where_def Let_def
  by (simp add: delete_rssFeeds_where_frame delete_bookmarkLists_where_frame
      delete_bookmarkTags_where_frame assets_delete_bookmarks_where)

theorem delete_user_removes_owned_rows_witness:
  "valid db_two_users \<and>
   map bookmarks_userId (bookmarks db_two_users) = [''u1'', ''u2''] \<and>
   map bookmarks_id (bookmarks (delete_user ''u1'' db_two_users)) = [''b2''] \<and>
   map bookmarkTags_id (bookmarkTags (delete_user ''u1'' db_two_users)) = [''t2''] \<and>
   bookmarkLists (delete_user ''u1'' db_two_users) = [a_list ''l2'' ''u2'' None] \<and>
   map apiKeys_id (apiKeys (delete_user ''u1'' db_two_users)) = [''k2''] \<and>
   map assets_id (assets (delete_user ''u1'' db_two_users)) = [''a2''] \<and>
   map customPrompts_id (customPrompts (delete_user ''u1'' db_two_users)) = [''p2''] \<and>
   map rssFeeds_id (rssFeedsTable (delete_user ''u1'' db_two_users)) = [''f2''] \<and>
   ''u1'' \<notin> set (map bookmarks_userId (bookmarks (delete_user ''u1'' db_two_users))) \<and>
   ''u1'' \<notin> set (map bookmarkTags_userId (bookmarkTags (delete_user ''u1'' db_two_users))) \<and>
   ''u1'' \<notin> set (map bookmarkLists_userId (bookmarkLists (delete_user ''u1'' db_two_users))) \<and>
   ''u1'' \<notin> set (map apiKeys_userId (apiKeys (delete_user ''u1'' db_two_users))) \<and>
   ''u1'' \<notin> set (map assets_userId (assets (delete_user ''u1'' db_two_users))) \<and>
   ''u1'' \<notin> set (map customPrompts_userId (customPrompts (delete_user ''u1'' db_two_users))) \<and>
   ''u1'' \<notin> set (map rssFeeds_userId (rssFeedsTable (delete_user ''u1'' db_two_users)))"
proof -
  have b0: "map bookmarks_userId (bookmarks db_two_users) = [''u1'', ''u2'']"
    by (simp add: db_two_users_def empty_db_def a_bookmark_def)
  have b: "map bookmarks_id (bookmarks (delete_user ''u1'' db_two_users)) = [''b2'']"
    by (simp add: delete_user_def bookmarks_delete_users_where db_two_users_def empty_db_def
        a_user_def a_bookmark_def)
  have t: "map bookmarkTags_id (bookmarkTags (delete_user ''u1'' db_two_users)) = [''t2'']"
    by (simp add: delete_user_def bookmarkTags_delete_users_where db_two_users_def
        empty_db_def a_user_def a_tag_def)
  have l: "bookmarkLists (delete_user ''u1'' db_two_users) = [a_list ''l2'' ''u2'' None]"
    by (simp add: delete_user_def bookmarkLists_delete_users_where_eq db_two_users_def
        empty_db_def a_user_def a_list_def in_gone_def)
  have k: "map apiKeys_id (apiKeys (delete_user ''u1'' db_two_users)) = [''k2'']"
    by (simp add: delete_user_def apiKeys_delete_users_where db_two_users_def empty_db_def
        a_user_def an_apiKey_def)
  have a: "map assets_id (assets (delete_user ''u1'' db_two_users)) = [''a2'']"
    by (simp add: delete_user_def assets_delete_users_where_eq db_two_users_def empty_db_def
        a_user_def an_asset_def a_bookmark_def in_gone_def)
  have p: "map customPrompts_id (customPrompts (delete_user ''u1'' db_two_users)) = [''p2'']"
    by (simp add: delete_user_def customPrompts_delete_users_where db_two_users_def
        empty_db_def a_user_def a_prompt_def)
  have f: "map rssFeeds_id (rssFeedsTable (delete_user ''u1'' db_two_users)) = [''f2'']"
    by (simp add: delete_user_def rssFeedsTable_delete_users_where db_two_users_def
        empty_db_def a_user_def a_feed_def)
  from valid_db_two_users b0 b t l k a p f
    delete_user_removes_owned_rows [OF valid_db_two_users, of "''u1''"]
  show ?thesis by blast
qed

section \<open>Deleting a bookmark\<close>

lemma delete_bookmarks_where_children:
  "bookmarkLinks (delete_bookmarks_where P s) =
     filter (\<lambda>r. bookmarkLinks_id r \<notin> set (map bookmarks_id (filter P (bookmarks s))))
       (bookmarkLinks s)"
  "bookmarkTexts (delete_bookmarks_where P s) =
     filter (\<lambda>r. bookmarkTexts_id r \<notin> set (map bookmarks_id (filter P (bookmarks s))))
       (bookmarkTexts s)"
  "bookmarkAssets (delete_bookmarks_where P s) =
     filter (\<lambda>r. bookmarkAssets_id r \<notin> set (map bookmarks_id (filter P (bookmarks s))))
       (bookmarkAssets s)"
  by (simp_all add: delete_bookmarks_where_def Let_def)

text \<open>
  Claim C5. Deleting a bookmark leaves no row keyed by its id in \<open>bookmarkLinks\<close>,
  \<open>bookmarkTexts\<close> or \<open>bookmarkAssets\<close> (nor in \<open>bookmarks\<close>).
\<close>

theorem delete_bookmark_removes_extension_rows:
  assumes "b \<in> set (bookmarks s)"
  shows "bookmarks_id b \<notin> set (map bookmarks_id (bookmarks (delete_bookmark (bookmarks_id b) s))) \<and>
         bookmarks_id b \<notin>
           set (map bookmarkLinks_id (bookmarkLinks (delete_bookmark (bookmarks_id b) s))) \<and>
         bookmarks_id b \<notin>
           set (map bookmarkTexts_id (bookmarkTexts (delete_bookmark (bookmarks_id b) s))) \<and>
         bookmarks_id b \<notin>
           set (map bookmarkAssets_id (bookmarkAssets (delete_bookmark (bookmarks_id b) s)))"
proof -
  from assms have "bookmarks_id b \<in>
      set (map bookmarks_id (filter (\<lambda>r. bookmarks_id r = bookmarks_id b) (bookmarks s)))"
    by auto
  then show ?thesis
    by (auto simp: delete_bookmark_def delete_bookmarks_where_children
        delete_bookmarks_where_frame)
qed

theorem delete_bookmark_removes_extension_rows_witness:
  "a_bookmark ''b1'' ''u1'' LINK \<in> set (bookmarks db_two_users) \<and>
   map bookmarkLinks_id (bookmarkLinks db_two_users) = [''b1''] \<and>
   map bookmarks_id (bookmarks (delete_bookmark ''b1'' db_two_users)) = [''b2''] \<and>
   bookmarkLinks (delete_bookmark ''b1'' db_two_users) = [] \<and>
   bookmarkTexts (delete_bookmark ''b1'' db_two_users) = [a_text ''b2''] \<and>
   ''b1'' \<notin> set (map bookmarks_id (bookmarks (delete_bookmark ''b1'' db_two_users))) \<and>
   ''b1'' \<notin> set (map bookmarkLinks_id (bookmarkLinks (delete_bookmark ''b1'' db_two_users))) \<and>
   ''b1'' \<notin> set (map bookmarkTexts_id (bookmarkTexts (delete_bookmark ''b1'' db_two_users))) \<and>
   ''b1'' \<notin> set (map bookmarkAssets_id (bookmarkAssets (delete_bookmark ''b1'' db_two_users)))"
proof -
  have m: "a_bookmark ''b1'' ''u1'' LINK \<in> set (bookmarks db_two_users)"
    by (simp add: db_two_users_def empty_db_def)
  have i: "bookmarks_id (a_bookmark ''b1'' ''u1'' LINK) = ''b1''"
    by (simp add: a_bookmark_def)
  have l0: "map bookmarkLinks_id (bookmarkLinks db_two_users) = [''b1'']"
    by (simp add: db_two_users_def empty_db_def a_link_def)
  have b: "map bookmarks_id (bookmarks (delete_bookmark ''b1'' db_two_users)) = [''b2'']"
    by (simp add: delete_bookmark_def delete_bookmarks_where_frame db_two_users_def
        empty_db_def a_bookmark_def)
  have l: "bookmarkLinks (delete_bookmark ''b1'' db_two_users) = []"
    by (simp add: delete_bookmark_def delete_bookmarks_where_children db_two_users_def
        empty_db_def a_bookmark_def a_link_def)
  have t: "bookmarkTexts (delete_bookmark ''b1'' db_two_users) = [a_text ''b2'']"
    by (simp add: delete_bookmark_def delete_bookmarks_where_children db_two_users_def
        empty_db_def a_bookmark_def a_text_def)
  from m l0 b l t delete_bookmark_removes_extension_rows [OF m] show ?thesis
    unfolding i by blast
qed

section \<open>Deleting the parent of a list\<close>

lemma filter_key_distinct:
  assumes "distinct (map key rows)" and "x \<in> set rows"
  shows "filter (\<lambda>r. key r = key x) rows = [x]"
  using assms
proof (induction rows)
  case Nil
  then show ?case by simp
next
  case (Cons y ys)
  show ?case
  proof (cases "y = x")
    case True
    with Cons.prems(1) have "key x \<notin> key ` set ys" by simp
    then have "\<forall>r \<in> set ys. key r \<noteq> key x" by (metis imageI)
    then have "filter (\<lambda>r. key r = key x) ys = []" by (simp add: filter_empty_conv)
    with True show ?thesis by simp
  next
    case False
    with Cons.prems have "x \<in> set ys" and "key y \<noteq> key x" by auto
    with Cons.IH Cons.prems(1) show ?thesis by simp
  qed
qed

lemma valid_db_self_parent: "valid db_self_parent"
  by (simp add: valid_def pk_ok_def unique_ok_def fk_ok_def refs_in_def non_null_def
      db_self_parent_def empty_db_def a_user_def a_list_def)

text \<open>
  Claim C6 as stated fails for a list that is its own parent: deleting the parent
  deletes the list itself.
\<close>

theorem delete_parent_counterexample:
  "valid db_self_parent \<and>
   a_list ''l1'' ''u1'' (Some ''l1'') \<in> set (bookmarkLists db_self_parent) \<and>
   bookmarkLists_parentId (a_list ''l1'' ''u1'' (Some ''l1'')) = Some ''l1'' \<and>
   bookmarkLists (delete_bookmarkList ''l1'' db_self_parent) = []"
  using valid_db_self_parent
  by (simp add: delete_bookmarkList_def bookmarkLists_delete_bookmarkLists_where
      db_self_parent_def empty_db_def a_list_def)

text \<open>
  Claim C6, amended. For a list \<open>L\<close> whose parent is another list, deleting the
  parent leaves exactly one row with the id of \<open>L\<close>: \<open>L\<close> with \<open>parentId\<close> NULL and
  every other column unchanged.
\<close>

theorem delete_parent_sets_null:
  assumes "valid s" and "L \<in> set (bookmarkLists s)"
    and "bookmarkLists_parentId L = Some p" and "p \<noteq> bookmarkLists_id L"
  shows "filter (\<lambda>r. bookmarkLists_id r = bookmarkLists_id L)
           (bookmarkLists (delete_bookmarkList p s))
         = [L\<lparr>bookmarkLists_parentId := None\<rparr>]"
proof -
  let ?gone = "map bookmarkLists_id (filter (\<lambda>r. bookmarkLists_id r = p) (bookmarkLists s))"
  let ?upd = "\<lambda>r. if in_gone ?gone (bookmarkLists_parentId r)
                   then r\<lparr>bookmarkLists_parentId := None\<rparr> else r"
  from assms(1) have pk: "distinct (map bookmarkLists_id (bookmarkLists s))"
    and fk: "refs_in (non_null (map bookmarkLists_parentId (bookmarkLists s)))
               (map bookmarkLists_id (bookmarkLists s))"
    by (simp_all add: valid_def pk_ok_def fk_ok_def)
  from assms(2,3) have "p \<in> set (non_null (map bookmarkLists_parentId (bookmarkLists s)))"
    by (force simp: non_null_def)
  with fk have "p \<in> set (map bookmarkLists_id (bookmarkLists s))"
    by (simp add: refs_in_def)
  then have "p \<in> set ?gone" by auto
  with assms(3) have upd_L: "?upd L = L\<lparr>bookmarkLists_parentId := None\<rparr>"
    by (simp add: in_gone_def)
  have key: "bookmarkLists_id (?upd r) = bookmarkLists_id r" for r by simp
  have "filter (\<lambda>r. bookmarkLists_id r = bookmarkLists_id L)
          (bookmarkLists (delete_bookmarkList p s))
        = map ?upd (filter (\<lambda>r. bookmarkLists_id r = bookmarkLists_id L)
            (filter (\<lambda>r. bookmarkLists_id r \<noteq> p) (bookmarkLists s)))"
    unfolding delete_bookmarkList_def bookmarkLists_delete_bookmarkLists_where filter_map
    by (simp only: o_def key)
  also have "filter (\<lambda>r. bookmarkLists_id r = bookmarkLists_id L)
               (filter (\<lambda>r. bookmarkLists_id r \<noteq> p) (bookmarkLists s))
             = filter (\<lambda>r. bookmarkLists_id r \<noteq> p)
                 (filter (\<lambda>r. bookmarkLists_id r = bookmarkLists_id L) (bookmarkLists s))"
    by (simp add: conj_commute)
  also have "filter (\<lambda>r. bookmarkLists_id r = bookmarkLists_id L) (bookmarkLists s) = [L]"
    using pk assms(2) by (rule filter_key_distinct)
  finally show ?thesis using assms(4) upd_L by simp
qed

theorem delete_parent_sets_null_witness:
  "valid db_two_users \<and>
   a_list ''l2'' ''u2'' (Some ''l1'') \<in> set (bookmarkLists db_two_users) \<and>
   bookmarkLists_parentId (a_list ''l2'' ''u2'' (Some ''l1'')) = Some ''l1'' \<and>
   ''l1'' \<noteq> bookmarkLists_id (a_list ''l2'' ''u2'' (Some ''l1'')) \<and>
   filter (\<lambda>r. bookmarkLists_id r = ''l2'') (bookmarkLists (delete_bookmarkList ''l1'' db_two_users))
     = [a_list ''l2'' ''u2'' None]"
proof -
  have m: "a_list ''l2'' ''u2'' (Some ''l1'') \<in> set (bookmarkLists db_two_users)"
    by (simp add: db_two_users_def empty_db_def)
  have q: "bookmarkLists_parentId (a_list ''l2'' ''u2'' (Some ''l1'')) = Some ''l1''"
    by (simp add: a_list_def)
  have n: "''l1'' \<noteq> bookmarkLists_id (a_list ''l2'' ''u2'' (Some ''l1''))"
    by (simp add: a_list_def)
  have i: "bookmarkLists_id (a_list ''l2'' ''u2'' (Some ''l1'')) = ''l2''"
    by (simp add: a_list_def)
  have u: "(a_list ''l2'' ''u2'' (Some ''l1''))\<lparr>bookmarkLists_parentId := None\<rparr>
             = a_list ''l2'' ''u2'' None"
    by (simp add: a_list_def)
  from delete_parent_sets_null [OF valid_db_two_users m q n] valid_db_two_users m q n
  show ?thesis unfolding i u by simp
qed

section \<open>Cycles in the list hierarchy\<close>

lemma valid_db_two_cycle: "valid db_two_cycle"
  by (simp add: valid_def pk_ok_def unique_ok_def fk_ok_def refs_in_def non_null_def
      db_two_cycle_def empty_db_def a_user_def a_list_def)

lemma ancestors_db_self_parent: "ancestors 1 db_self_parent ''l1'' = [''l1'']"
  by (simp add: parent_of_def db_self_parent_def empty_db_def a_list_def)

lemma ancestors_db_two_cycle: "ancestors 2 db_two_cycle ''l1'' = [''l2'', ''l1'']"
  by (simp add: numeral_2_eq_2 parent_of_def db_two_cycle_def empty_db_def a_list_def)

text \<open>
  Claim C4. Some state satisfies every declared constraint and holds a list that is
  its own parent; another holds a list that is not its own parent but is reached again
  by following \<open>parentId\<close> twice.
\<close>

theorem list_cycle_satisfies_schema:
  "(\<exists>s l. valid s \<and> l \<in> set (bookmarkLists s) \<and>
      bookmarkLists_parentId l = Some (bookmarkLists_id l) \<and>
      bookmarkLists_id l \<in> set (ancestors 1 s (bookmarkLists_id l))) \<and>
   (\<exists>s l. valid s \<and> l \<in> set (bookmarkLists s) \<and>
      bookmarkLists_parentId l \<noteq> Some (bookmarkLists_id l) \<and>
      bookmarkLists_id l \<in> set (ancestors 2 s (bookmarkLists_id l)))"
proof
  let ?l = "a_list ''l1'' ''u1'' (Some ''l1'')"
  have "valid db_self_parent" by (rule valid_db_self_parent)
  moreover have "?l \<in> set (bookmarkLists db_self_parent)"
    by (simp add: db_self_parent_def empty_db_def)
  moreover have "bookmarkLists_parentId ?l = Some (bookmarkLists_id ?l)"
    by (simp add: a_list_def)
  moreover have "bookmarkLists_id ?l \<in> set (ancestors 1 db_self_parent (bookmarkLists_id ?l))"
    using ancestors_db_self_parent by (simp add: a_list_def)
  ultimately show "\<exists>s l. valid s \<and> l \<in> set (bookmarkLists s) \<and>
      bookmarkLists_parentId l = Some (bookmarkLists_id l) \<and>
      bookmarkLists_id l \<in> set (ancestors 1 s (bookmarkLists_id l))"
    by blast
next
  let ?l = "a_list ''l1'' ''u1'' (Some ''l2'')"
  have "valid db_two_cycle" by (rule valid_db_two_cycle)
  moreover have "?l \<in> set (bookmarkLists db_two_cycle)"
    by (simp add: db_two_cycle_def empty_db_def)
  moreover have "bookmarkLists_parentId ?l \<noteq> Some (bookmarkLists_id ?l)"
    by (simp add: a_list_def)
  moreover have "bookmarkLists_id ?l \<in> set (ancestors 2 db_two_cycle (bookmarkLists_id ?l))"
    using ancestors_db_two_cycle by (simp add: a_list_def)
  ultimately show "\<exists>s l. valid s \<and> l \<in> set (bookmarkLists s) \<and>
      bookmarkLists_parentId l \<noteq> Some (bookmarkLists_id l) \<and>
      bookmarkLists_id l \<in> set (ancestors 2 s (bookmarkLists_id l))"
    by blast
qed

section \<open>Extension rows and identifiers\<close>

lemma valid_db_link_and_text: "valid db_link_and_text"
  by (simp add: valid_def pk_ok_def unique_ok_def fk_ok_def refs_in_def non_null_def
      db_link_and_text_def empty_db_def a_user_def a_bookmark_def a_link_def a_text_def)

lemma rows_keyed_distinct:
  assumes "distinct (map key rows)"
  shows "rows_keyed key rows k \<le> 1"
  using assms unfolding rows_keyed_def
proof (induction rows)
  case Nil
  then show ?case by simp
next
  case (Cons y ys)
  show ?case
  proof (cases "key y = k")
    case True
    with Cons.prems have "k \<notin> key ` set ys" by simp
    then have "\<forall>r \<in> set ys. key r \<noteq> k" by (metis imageI)
    then have "filter (\<lambda>r. key r = k) ys = []" by (simp add: filter_empty_conv)
    with True show ?thesis by simp
  next
    case False
    with Cons show ?thesis by simp
  qed
qed

lemma rows_keyed_pos:
  "0 < rows_keyed key rows k \<longleftrightarrow> k \<in> set (map key rows)"
  unfolding rows_keyed_def by (induction rows) auto

text \<open>
  Claim C2 as stated fails: a state satisfying every declared constraint holds a link
  row and a text row keyed by the same bookmark.
\<close>

theorem sub_records_counterexample:
  "valid db_link_and_text \<and>
   ''b1'' \<in> set (map bookmarkLinks_id (bookmarkLinks db_link_and_text)) \<and>
   ''b1'' \<in> set (map bookmarkTexts_id (bookmarkTexts db_link_and_text)) \<and>
   sub_records db_link_and_text ''b1'' = 2"
  using valid_db_link_and_text
  by (simp add: sub_records_def rows_keyed_def db_link_and_text_def empty_db_def
      a_link_def a_text_def)

text \<open>
  Claim C2, amended. In a state that satisfies the schema, each of the three extension
  tables holds at most one row keyed by a given bookmark id, and an id that keys any
  such row is the id of a row of \<open>bookmarks\<close>.
\<close>

theorem sub_records_per_table:
  assumes "valid s"
  shows "rows_keyed bookmarkLinks_id (bookmarkLinks s) bid \<le> 1 \<and>
         rows_keyed bookmarkTexts_id (bookmarkTexts s) bid \<le> 1 \<and>
         rows_keyed bookmarkAssets_id (bookmarkAssets s) bid \<le> 1 \<and>
         (0 < sub_records s bid \<longrightarrow> bid \<in> set (map bookmarks_id (bookmarks s)))"
proof -
  from assms have pk: "pk_ok s" and fk: "fk_ok s" by (simp_all add: valid_def)
  from pk have "distinct (map bookmarkLinks_id (bookmarkLinks s))" by (simp add: pk_ok_def)
  then have l: "rows_keyed bookmarkLinks_id (bookmarkLinks s) bid \<le> 1" by (rule rows_keyed_distinct)
  from pk have "distinct (map bookmarkTexts_id (bookmarkTexts s))" by (simp add: pk_ok_def)
  then have t: "rows_keyed bookmarkTexts_id (bookmarkTexts s) bid \<le> 1" by (rule rows_keyed_distinct)
  from pk have "distinct (map bookmarkAssets_id (bookmarkAssets s))" by (simp add: pk_ok_def)
  then have a: "rows_keyed bookmarkAssets_id (bookmarkAssets s) bid \<le> 1" by (rule rows_keyed_distinct)
  have e: "bid \<in> set (map bookmarks_id (bookmarks s))" if "0 < sub_records s bid"
  proof -
    from that consider "0 < rows_keyed bookmarkLinks_id (bookmarkLinks s) bid"
      | "0 < rows_keyed bookmarkTexts_id (bookmarkTexts s) bid"
      | "0 < rows_keyed bookmarkAssets_id (bookmarkAssets s) bid"
      unfolding sub_records_def by linarith
    then show ?thesis
    proof cases
      case 1
      then have "bid \<in> set (map bookmarkLinks_id (bookmarkLinks s))"
        by (simp only: rows_keyed_pos)
      moreover from fk have "refs_in (map bookmarkLinks_id (bookmarkLinks s))
          (map bookmarks_id (bookmarks s))" by (simp add: fk_ok_def)
      ultimately show ?thesis unfolding refs_in_def by blast
    next
      case 2
      then have "bid \<in> set (map bookmarkTexts_id (bookmarkTexts s))"
        by (simp only: rows_keyed_pos)
      moreover from fk have "refs_in (map bookmarkTexts_id (bookmarkTexts s))
          (map bookmarks_id (bookmarks s))" by (simp add: fk_ok_def)
      ultimately show ?thesis unfolding refs_in_def by blast
    next
      case 3
      then have "bid \<in> set (map bookmarkAssets_id (bookmarkAssets s))"
        by (simp only: rows_keyed_pos)
      moreover from fk have "refs_in (map bookmarkAssets_id (bookmarkAssets s))
          (map bookmarks_id (bookmarks s))" by (simp add: fk_ok_def)
      ultimately show ?thesis unfolding refs_in_def by blast
    qed
  qed
  from l t a e show ?thesis by blast
qed

theorem sub_records_per_table_witness:
  "valid db_link_and_text \<and>
   rows_keyed bookmarkLinks_id (bookmarkLinks db_link_and_text) ''b1'' = 1 \<and>
   rows_keyed bookmarkTexts_id (bookmarkTexts db_link_and_text) ''b1'' = 1 \<and>
   rows_keyed bookmarkAssets_id (bookmarkAssets db_link_and_text) ''b1'' = 0 \<and>
   0 < sub_records db_link_and_text ''b1'' \<and>
   ''b1'' \<in> set (map bookmarks_id (bookmarks db_link_and_text))"
proof -
  have c: "rows_keyed bookmarkLinks_id (bookmarkLinks db_link_and_text) ''b1'' = 1"
    "rows_keyed bookmarkTexts_id (bookmarkTexts db_link_and_text) ''b1'' = 1"
    "rows_keyed bookmarkAssets_id (bookmarkAssets db_link_and_text) ''b1'' = 0"
    by (simp_all add: rows_keyed_def db_link_and_text_def empty_db_def a_link_def a_text_def)
  then have p: "0 < sub_records db_link_and_text ''b1''"
    by (simp add: sub_records_def)
  from sub_records_per_table [OF valid_db_link_and_text, of "''b1''"] p
  have "''b1'' \<in> set (map bookmarks_id (bookmarks db_link_and_text))" by blast
  with valid_db_link_and_text c p show ?thesis by blast
qed

text \<open>
  Claim C3 as stated fails: an extension row carries the id of its bookmark, so two
  rows of different tables share an id in a state that satisfies the schema.
\<close>

theorem global_ids_counterexample:
  "valid db_link_and_text \<and>
   all_ids db_link_and_text = [''u1'', ''b1'', ''b1'', ''b1''] \<and>
   \<not> distinct (all_ids db_link_and_text)"
  using valid_db_link_and_text
  by (simp add: all_ids_def db_link_and_text_def empty_db_def a_user_def a_bookmark_def
      a_link_def a_text_def)

text \<open>
  Claim C3, amended. In a state that satisfies the schema, identifiers are unique
  within each table: for every value \<open>k\<close>, each table with an \<open>id\<close> column holds at most
  one row whose \<open>id\<close> is \<open>k\<close>.
\<close>

theorem ids_unique_per_table:
  assumes "valid s"
  shows "rows_keyed users_id (users s) k \<le> 1 \<and>
         rows_keyed apiKeys_id (apiKeys s) k \<le> 1 \<and>
         rows_keyed bookmarks_id (bookmarks s) k \<le> 1 \<and>
         rows_keyed bookmarkLinks_id (bookmarkLinks s) k \<le> 1 \<and>
         rows_keyed assets_id (assets s) k \<le> 1 \<and>
         rows_keyed bookmarkTexts_id (bookmarkTexts s) k \<le> 1 \<and>
         rows_keyed bookmarkAssets_id (bookmarkAssets s) k \<le> 1 \<and>
         rows_keyed bookmarkTags_id (bookmarkTags s) k \<le> 1 \<and>
         rows_keyed bookmarkLists_id (bookmarkLists s) k \<le> 1 \<and>
         rows_keyed customPrompts_id (customPrompts s) k \<le> 1 \<and>
         rows_keyed rssFeeds_id (rssFeedsTable s) k \<le> 1 \<and>
         rows_keyed rssFeedImports_id (rssFeedImportsTable s) k \<le> 1"
proof -
  from assms have pk: "pk_ok s" by (simp add: valid_def)
  from pk have "distinct (map users_id (users s))" by (simp add: pk_ok_def)
  then have c1: "rows_keyed users_id (users s) k \<le> 1" by (rule rows_keyed_distinct)
  from pk have "distinct (map apiKeys_id (apiKeys s))" by (simp add: pk_ok_def)
  then have c2: "rows_keyed apiKeys_id (apiKeys s) k \<le> 1" by (rule rows_keyed_distinct)
  from pk have "distinct (map bookmarks_id (bookmarks s))" by (simp add: pk_ok_def)
  then have c3: "rows_keyed bookmarks_id (bookmarks s) k \<le> 1" by (rule rows_keyed_distinct)
  from pk have "distinct (map bookmarkLinks_id (bookmarkLinks s))" by (simp add: pk_ok_def)
  then have c4: "rows_keyed bookmarkLinks_id (bookmarkLinks s) k \<le> 1"
    by (rule rows_keyed_distinct)
  from pk have "distinct (map assets_id (assets s))" by (simp add: pk_ok_def)
  then have c5: "rows_keyed assets_id (assets s) k \<le> 1" by (rule rows_keyed_distinct)
  from pk have "distinct (map bookmarkTexts_id (bookmarkTexts s))" by (simp add: pk_ok_def)
  then have c6: "rows_keyed bookmarkTexts_id (bookmarkTexts s) k \<le> 1"
    by (rule rows_keyed_distinct)
  from pk have "distinct (map bookmarkAssets_id (bookmarkAssets s))" by (simp add: pk_ok_def)
  then have c7: "rows_keyed bookmarkAssets_id (bookmarkAssets s) k \<le> 1"
    by (rule rows_keyed_distinct)
  from pk have "distinct (map bookmarkTags_id (bookmarkTags s))" by (simp add: pk_ok_def)
  then have c8: "rows_keyed bookmarkTags_id (bookmarkTags s) k \<le> 1"
    by (rule rows_keyed_distinct)
  from pk have "distinct (map bookmarkLists_id (bookmarkLists s))" by (simp add: pk_ok_def)
  then have c9: "rows_keyed bookmarkLists_id (bookmarkLists s) k \<le> 1"
    by (rule rows_keyed_distinct)
  from pk have "distinct (map customPrompts_id (customPrompts s))" by (simp add: pk_ok_def)
  then have c10: "rows_keyed customPrompts_id (customPrompts s) k \<le> 1"
    by (rule rows_keyed_distinct)
  from pk have "distinct (map rssFeeds_id (rssFeedsTable s))" by (simp add: pk_ok_def)
  then have c11: "rows_keyed rssFeeds_id (rssFeedsTable s) k \<le> 1"
    by (rule rows_keyed_distinct)
  from pk have "distinct (map rssFeedImports_id (rssFeedImportsTable s))"
    by (simp add: pk_ok_def)
  then have c12: "rows_keyed rssFeedImports_id (rssFeedImportsTable s) k \<le> 1"
    by (rule rows_keyed_distinct)
  from c1 c2 c3 c4 c5 c6 c7 c8 c9 c10 c11 c12 show ?thesis by blast
qed

theorem ids_unique_per_table_witness:
  "valid db_two_users \<and>
   rows_keyed users_id (users db_two_users) ''u1'' = 1 \<and>
   rows_keyed bookmarks_id (bookmarks db_two_users) ''b2'' = 1 \<and>
   rows_keyed bookmarkLists_id (bookmarkLists db_two_users) ''l1'' = 1 \<and>
   rows_keyed rssFeedImports_id (rssFeedImportsTable db_two_users) ''i2'' \<le> 1"
proof -
  have "rows_keyed users_id (users db_two_users) ''u1'' = 1"
    by (simp add: rows_keyed_def db_two_users_def empty_db_def a_user_def)
  moreover have "rows_keyed bookmarks_id (bookmarks db_two_users) ''b2'' = 1"
    by (simp add: rows_keyed_def db_two_users_def empty_db_def a_bookmark_def)
  moreover have "rows_keyed bookmarkLists_id (bookmarkLists db_two_users) ''l1'' = 1"
    by (simp add: rows_keyed_def db_two_users_def empty_db_def a_list_def)
  moreover from ids_unique_per_table [OF valid_db_two_users, of "''i2''"]
  have "rows_keyed rssFeedImports_id (rssFeedImportsTable db_two_users) ''i2'' \<le> 1"
    by blast
  ultimately show ?thesis using valid_db_two_users by blast
qed

section \<open>Inserts that a key refuses\<close>

lemma insert_rssFeedImports_valid:
  assumes "valid s" and "insert_rssFeedImports r s = Inr s'"
  shows "valid s'"
proof -
  from assms(2) have
    s': "s' = s\<lparr>rssFeedImportsTable := rssFeedImportsTable s @ [r]\<rparr>"
    and pk: "rssFeedImports_id r \<notin> set (map rssFeedImports_id (rssFeedImportsTable s))"
    and un: "(rssFeedImports_rssFeedId r, rssFeedImports_entryId r)
               \<notin> set (map (\<lambda>x. (rssFeedImports_rssFeedId x, rssFeedImports_entryId x))
                         (rssFeedImportsTable s))"
    and f1: "rssFeedImports_rssFeedId r \<in> set (map rssFeeds_id (rssFeedsTable s))"
    and f2: "\<not> dangling (map bookmarks_id (bookmarks s)) (rssFeedImports_bookmarkId r)"
    by (auto simp: insert_rssFeedImports_def split: if_splits)
  from assms(1) pk have "pk_ok s'" by (simp add: s' valid_def pk_ok_def)
  moreover from assms(1) un have "unique_ok s'" by (simp add: s' valid_def unique_ok_def)
  moreover from assms(1) f1 f2 have "fk_ok s'"
    by (auto simp: s' valid_def fk_ok_def refs_in_def non_null_def dangling_def
        split: option.splits)
  ultimately show ?thesis by (simp add: valid_def)
qed

lemma insert_tagsOnBookmarks_valid:
  assumes "valid s" and "insert_tagsOnBookmarks r s = Inr s'"
  shows "valid s'"
proof -
  from assms(2) have
    s': "s' = s\<lparr>tagsOnBookmarks := tagsOnBookmarks s @ [r]\<rparr>"
    and pk: "(tagsOnBookmarks_bookmarkId r, tagsOnBookmarks_tagId r)
               \<notin> set (map (\<lambda>x. (tagsOnBookmarks_bookmarkId x, tagsOnBookmarks_tagId x))
                         (tagsOnBookmarks s))"
    and f1: "tagsOnBookmarks_bookmarkId r \<in> set (map bookmarks_id (bookmarks s))"
    and f2: "tagsOnBookmarks_tagId r \<in> set (map bookmarkTags_id (bookmarkTags s))"
    by (auto simp: insert_tagsOnBookmarks_def split: if_splits)
  from assms(1) pk have "pk_ok s'" by (simp add: s' valid_def pk_ok_def)
  moreover from assms(1) have "unique_ok s'" by (simp add: s' valid_def unique_ok_def)
  moreover from assms(1) f1 f2 have "fk_ok s'"
    by (auto simp: s' valid_def fk_ok_def refs_in_def)
  ultimately show ?thesis by (simp add: valid_def)
qed

lemma insert_bookmarks_valid:
  assumes "valid s" and "insert_bookmarks fresh now v s = Inr s'"
  shows "valid s'"
proof -
  let ?r = "bookmarks_values fresh now v"
  from assms(2) have
    s': "s' = s\<lparr>bookmarks := bookmarks s @ [?r]\<rparr>"
    and pk: "bookmarks_id ?r \<notin> set (map bookmarks_id (bookmarks s))"
    and f1: "bookmarks_userId ?r \<in> set (map users_id (users s))"
    by (auto simp: insert_bookmarks_def Let_def split: if_splits)
  from assms(1) pk have "pk_ok s'" by (simp add: s' valid_def pk_ok_def)
  moreover from assms(1) have "unique_ok s'" by (simp add: s' valid_def unique_ok_def)
  moreover from assms(1) f1 have "fk_ok s'"
    by (auto simp: s' valid_def fk_ok_def refs_in_def)
  ultimately show ?thesis by (simp add: valid_def)
qed

text \<open>
  Claim C7. In a state that satisfies the schema no two rows of \<open>rssFeedImports\<close> agree
  on \<open>(rssFeedId, entryId)\<close>; an insert of a row whose pair is already stored is
  refused, and an accepted insert leaves the pairs distinct.
\<close>

theorem rssFeedImports_unique_per_feed:
  assumes "valid s"
  shows "distinct (map (\<lambda>r. (rssFeedImports_rssFeedId r, rssFeedImports_entryId r))
                     (rssFeedImportsTable s)) \<and>
         ((rssFeedImports_rssFeedId n, rssFeedImports_entryId n)
            \<in> set (map (\<lambda>r. (rssFeedImports_rssFeedId r, rssFeedImports_entryId r))
                      (rssFeedImportsTable s))
          \<longrightarrow> insert_rssFeedImports n s = Inl PrimaryKeyViolation
              \<or> insert_rssFeedImports n s = Inl UniqueViolation) \<and>
         (insert_rssFeedImports n s = Inr s'
          \<longrightarrow> distinct (map (\<lambda>r. (rssFeedImports_rssFeedId r, rssFeedImports_entryId r))
                          (rssFeedImportsTable s')))"
proof -
  from assms have "distinct (map (\<lambda>r. (rssFeedImports_rssFeedId r, rssFeedImports_entryId r))
                     (rssFeedImportsTable s))"
    by (simp add: valid_def unique_ok_def)
  moreover have "(rssFeedImports_rssFeedId n, rssFeedImports_entryId n)
            \<in> set (map (\<lambda>r. (rssFeedImports_rssFeedId r, rssFeedImports_entryId r))
                      (rssFeedImportsTable s))
          \<longrightarrow> insert_rssFeedImports n s = Inl PrimaryKeyViolation
              \<or> insert_rssFeedImports n s = Inl UniqueViolation"
    by (simp add: insert_rssFeedImports_def)
  moreover have "distinct (map (\<lambda>r. (rssFeedImports_rssFeedId r, rssFeedImports_entryId r))
                          (rssFeedImportsTable s'))"
    if "insert_rssFeedImports n s = Inr s'"
  proof -
    from assms that have "valid s'" by (rule insert_rssFeedImports_valid)
    then show ?thesis by (simp add: valid_def unique_ok_def)
  qed
  ultimately show ?thesis by blast
qed

theorem rssFeedImports_unique_per_feed_witness:
  "valid db_two_users \<and>
   map (\<lambda>r. (rssFeedImports_rssFeedId r, rssFeedImports_entryId r))
     (rssFeedImportsTable db_two_users) = [(''f1'', ''e1''), (''f2'', ''e1'')] \<and>
   insert_rssFeedImports (an_import ''i3'' ''f1'' ''e1'' None) db_two_users
     = Inl UniqueViolation \<and>
   insert_rssFeedImports (an_import ''i3'' ''f1'' ''e2'' None) db_two_users
     = Inr (db_two_users\<lparr>rssFeedImportsTable :=
              rssFeedImportsTable db_two_users @ [an_import ''i3'' ''f1'' ''e2'' None]\<rparr>)"
proof -
  have c: "map (\<lambda>r. (rssFeedImports_rssFeedId r, rssFeedImports_entryId r))
     (rssFeedImportsTable db_two_users) = [(''f1'', ''e1''), (''f2'', ''e1'')]"
    by (simp add: db_two_users_def empty_db_def an_import_def)
  have i: "map rssFeedImports_id (rssFeedImportsTable db_two_users) = [''i1'', ''i2'']"
    by (simp add: db_two_users_def empty_db_def an_import_def)
  have f: "map rssFeeds_id (rssFeedsTable db_two_users) = [''f1'', ''f2'']"
    by (simp add: db_two_users_def empty_db_def a_feed_def)
  have npk: "insert_rssFeedImports (an_import ''i3'' ''f1'' ''e1'' None) db_two_users
               \<noteq> Inl PrimaryKeyViolation"
    by (simp add: insert_rssFeedImports_def c i an_import_def)
  have ok: "insert_rssFeedImports (an_import ''i3'' ''f1'' ''e2'' None) db_two_users
     = Inr (db_two_users\<lparr>rssFeedImportsTable :=
              rssFeedImportsTable db_two_users @ [an_import ''i3'' ''f1'' ''e2'' None]\<rparr>)"
    by (simp add: insert_rssFeedImports_def c i f dangling_def an_import_def)
  have m: "(rssFeedImports_rssFeedId (an_import ''i3'' ''f1'' ''e1'' None),
            rssFeedImports_entryId (an_import ''i3'' ''f1'' ''e1'' None))
      \<in> set (map (\<lambda>r. (rssFeedImports_rssFeedId r, rssFeedImports_entryId r))
                (rssFeedImportsTable db_two_users))"
    unfolding c by (simp add: an_import_def)
  from rssFeedImports_unique_per_feed
    [OF valid_db_two_users, of "an_import ''i3'' ''f1'' ''e1'' None"] m npk
  have "insert_rssFeedImports (an_import ''i3'' ''f1'' ''e1'' None) db_two_users
          = Inl UniqueViolation" by blast
  with valid_db_two_users c ok show ?thesis by blast
qed

text \<open>
  Claim C9. In a state that satisfies the schema no two rows of \<open>tagsOnBookmarks\<close>
  agree on \<open>(bookmarkId, tagId)\<close>; attaching a tag that is already attached to the
  bookmark is refused, and an accepted insert leaves the pairs distinct.
\<close>

theorem tagsOnBookmarks_attached_once:
  assumes "valid s"
  shows "distinct (map (\<lambda>r. (tagsOnBookmarks_bookmarkId r, tagsOnBookmarks_tagId r))
                     (tagsOnBookmarks s)) \<and>
         ((tagsOnBookmarks_bookmarkId n, tagsOnBookmarks_tagId n)
            \<in> set (map (\<lambda>r. (tagsOnBookmarks_bookmarkId r, tagsOnBookmarks_tagId r))
                      (tagsOnBookmarks s))
          \<longrightarrow> insert_tagsOnBookmarks n s = Inl PrimaryKeyViolation) \<and>
         (insert_tagsOnBookmarks n s = Inr s'
          \<longrightarrow> distinct (map (\<lambda>r. (tagsOnBookmarks_bookmarkId r, tagsOnBookmarks_tagId r))
                          (tagsOnBookmarks s')))"
proof -
  from assms have "distinct (map (\<lambda>r. (tagsOnBookmarks_bookmarkId r, tagsOnBookmarks_tagId r))
                     (tagsOnBookmarks s))"
    by (simp add: valid_def pk_ok_def)
  moreover have "(tagsOnBookmarks_bookmarkId n, tagsOnBookmarks_tagId n)
            \<in> set (map (\<lambda>r. (tagsOnBookmarks_bookmarkId r, tagsOnBookmarks_tagId r))
                      (tagsOnBookmarks s))
          \<longrightarrow> insert_tagsOnBookmarks n s = Inl PrimaryKeyViolation"
    by (simp add: insert_tagsOnBookmarks_def)
  moreover have "distinct (map (\<lambda>r. (tagsOnBookmarks_bookmarkId r, tagsOnBookmarks_tagId r))
                          (tagsOnBookmarks s'))"
    if "insert_tagsOnBookmarks n s = Inr s'"
  proof -
    from assms that have "valid s'" by (rule insert_tagsOnBookmarks_valid)
    then show ?thesis by (simp add: valid_def pk_ok_def)
  qed
  ultimately show ?thesis by blast
qed

theorem tagsOnBookmarks_attached_once_witness:
  "valid db_two_users \<and>
   map (\<lambda>r. (tagsOnBookmarks_bookmarkId r, tagsOnBookmarks_tagId r))
     (tagsOnBookmarks db_two_users) = [(''b1'', ''t1''), (''b2'', ''t2'')] \<and>
   insert_tagsOnBookmarks (a_tagging ''b1'' ''t1'') db_two_users = Inl PrimaryKeyViolation \<and>
   insert_tagsOnBookmarks (a_tagging ''b1'' ''t2'') db_two_users
     = Inr (db_two_users\<lparr>tagsOnBookmarks :=
              tagsOnBookmarks db_two_users @ [a_tagging ''b1'' ''t2'']\<rparr>)"
proof -
  have c: "map (\<lambda>r. (tagsOnBookmarks_bookmarkId r, tagsOnBookmarks_tagId r))
     (tagsOnBookmarks db_two_users) = [(''b1'', ''t1''), (''b2'', ''t2'')]"
    by (simp add: db_two_users_def empty_db_def a_tagging_def)
  have b: "map bookmarks_id (bookmarks db_two_users) = [''b1'', ''b2'']"
    by (simp add: db_two_users_def empty_db_def a_bookmark_def)
  have t: "map bookmarkTags_id (bookmarkTags db_two_users) = [''t1'', ''t2'']"
    by (simp add: db_two_users_def empty_db_def a_tag_def)
  have ok: "insert_tagsOnBookmarks (a_tagging ''b1'' ''t2'') db_two_users
     = Inr (db_two_users\<lparr>tagsOnBookmarks :=
              tagsOnBookmarks db_two_users @ [a_tagging ''b1'' ''t2'']\<rparr>)"
    by (simp add: insert_tagsOnBookmarks_def c b t a_tagging_def)
  have m: "(tagsOnBookmarks_bookmarkId (a_tagging ''b1'' ''t1''),
            tagsOnBookmarks_tagId (a_tagging ''b1'' ''t1''))
      \<in> set (map (\<lambda>r. (tagsOnBookmarks_bookmarkId r, tagsOnBookmarks_tagId r))
                (tagsOnBookmarks db_two_users))"
    unfolding c by (simp add: a_tagging_def)
  from tagsOnBookmarks_attached_once [OF valid_db_two_users, of "a_tagging ''b1'' ''t1''"] m
  have "insert_tagsOnBookmarks (a_tagging ''b1'' ''t1'') db_two_users
          = Inl PrimaryKeyViolation" by blast
  with valid_db_two_users c ok show ?thesis by blast
qed

section \<open>Defaults of a new bookmark\<close>

text \<open>
  Claim C8. An insert into \<open>bookmarks\<close> that omits \<open>createdAt\<close>, \<open>archived\<close>,
  \<open>favourited\<close> and \<open>taggingStatus\<close> and is accepted appends one row, which is not
  archived, not favourited, pending tagging and created at the time of the insert.
\<close>

theorem insert_bookmarks_defaults:
  assumes "new_createdAt v = None" and "new_archived v = None"
    and "new_favourited v = None" and "new_taggingStatus v = None"
    and "insert_bookmarks fresh now v s = Inr s'"
  shows "\<exists>r. bookmarks s' = bookmarks s @ [r] \<and>
             bookmarks_archived r = False \<and>
             bookmarks_favourited r = False \<and>
             bookmarks_taggingStatus r = Some Pending \<and>
             bookmarks_createdAt r = now"
proof -
  let ?r = "bookmarks_values fresh now v"
  from assms(5) have "bookmarks s' = bookmarks s @ [?r]"
    by (auto simp: insert_bookmarks_def Let_def split: if_splits)
  moreover from assms(1-4) have "bookmarks_archived ?r = False"
    and "bookmarks_favourited ?r = False"
    and "bookmarks_taggingStatus ?r = Some Pending"
    and "bookmarks_createdAt ?r = now"
    by (simp_all add: bookmarks_values_def)
  ultimately show ?thesis by blast
qed


theorem insert_bookmarks_defaults_witness:
  "new_createdAt (a_new_bookmark ''u1'' LINK) = None \<and>
   new_archived (a_new_bookmark ''u1'' LINK) = None \<and>
   new_favourited (a_new_bookmark ''u1'' LINK) = None \<and>
   new_taggingStatus (a_new_bookmark ''u1'' LINK) = None \<and>
   insert_bookmarks ''b3'' 1700000000 (a_new_bookmark ''u1'' LINK) db_two_users
     = Inr (db_two_users\<lparr>bookmarks := bookmarks db_two_users
              @ [(a_bookmark ''b3'' ''u1'' LINK)\<lparr>bookmarks_createdAt := 1700000000\<rparr>]\<rparr>) \<and>
   (\<exists>r. bookmarks (db_two_users\<lparr>bookmarks := bookmarks db_two_users
              @ [(a_bookmark ''b3'' ''u1'' LINK)\<lparr>bookmarks_createdAt := 1700000000\<rparr>]\<rparr>)
          = bookmarks db_two_users @ [r] \<and>
        bookmarks_archived r = False \<and> bookmarks_favourited r = False \<and>
        bookmarks_taggingStatus r = Some Pending \<and> bookmarks_createdAt r = 1700000000)"
proof -
  have o: "new_createdAt (a_new_bookmark ''u1'' LINK) = None"
    "new_archived (a_new_bookmark ''u1'' LINK) = None"
    "new_favourited (a_new_bookmark ''u1'' LINK) = None"
    "new_taggingStatus (a_new_bookmark ''u1'' LINK) = None"
    by (simp_all add: a_new_bookmark_def)
  have v: "bookmarks_values ''b3'' 1700000000 (a_new_bookmark ''u1'' LINK)
             = (a_bookmark ''b3'' ''u1'' LINK)\<lparr>bookmarks_createdAt := 1700000000\<rparr>"
    by (simp add: bookmarks_values_def a_new_bookmark_def a_bookmark_def)
  have b: "map bookmarks_id (bookmarks db_two_users) = [''b1'', ''b2'']"
    by (simp add: db_two_users_def empty_db_def a_bookmark_def)
  have u: "map users_id (users db_two_users) = [''u1'', ''u2'']"
    by (simp add: db_two_users_def empty_db_def a_user_def)
  have i: "insert_bookmarks ''b3'' 1700000000 (a_new_bookmark ''u1'' LINK) db_two_users
     = Inr (db_two_users\<lparr>bookmarks := bookmarks db_two_users
              @ [(a_bookmark ''b3'' ''u1'' LINK)\<lparr>bookmarks_createdAt := 1700000000\<rparr>]\<rparr>)"
    unfolding insert_bookmarks_def Let_def v by (simp add: b u a_bookmark_def)
  from o i insert_bookmarks_defaults [OF o i] show ?thesis by blast
qed

section \<open>Saving the current tab\<close>

text \<open>
  Claim C10. When the tab query returns no tab, or a first tab whose \<open>url\<close> is absent
  or empty, \<open>runSave\<close> calls \<open>createBookmark\<close> not at all and sets the error to
  ``Couldn't find the URL of the current tab''; otherwise it calls \<open>createBookmark\<close>
  exactly once, with type ``link'' and the url of the first tab, and leaves the error
  as it was.
\<close>

theorem runSave_saves_current_tab:
  "(tabs = [] \<or> (\<exists>t rest. tabs = t # rest \<and> (tab_url t = None \<or> tab_url t = Some []))
      \<longrightarrow> createBookmark_calls (runSave tabs st) = createBookmark_calls st \<and>
          sp_error (runSave tabs st) = Some ''Couldn't find the URL of the current tab'') \<and>
   (\<forall>t rest u. tabs = t # rest \<and> tab_url t = Some u \<and> u \<noteq> []
      \<longrightarrow> createBookmark_calls (runSave tabs st)
            = createBookmark_calls st @ [\<lparr>arg_type = ''link'', arg_url = u\<rparr>] \<and>
          sp_error (runSave tabs st) = sp_error st)"
  by (auto simp: runSave_def optional_url_def)

theorem runSave_saves_current_tab_witness:
  "runSave [] initial_SavePage
     = \<lparr>sp_error = Some ''Couldn't find the URL of the current tab'',
        createBookmark_calls = []\<rparr> \<and>
   runSave [\<lparr>tab_url = None\<rparr>] initial_SavePage
     = \<lparr>sp_error = Some ''Couldn't find the URL of the current tab'',
        createBookmark_calls = []\<rparr> \<and>
   createBookmark_calls (runSave [\<lparr>tab_url = Some ''https://example.com/page''\<rparr>,
       \<lparr>tab_url = Some ''https://example.com/other''\<rparr>] initial_SavePage)
     = [\<lparr>arg_type = ''link'', arg_url = ''https://example.com/page''\<rparr>] \<and>
   sp_error (runSave [\<lparr>tab_url = Some ''https://example.com/page''\<rparr>,
       \<lparr>tab_url = Some ''https://example.com/other''\<rparr>] initial_SavePage) = None"
proof -
  have e: "runSave [] initial_SavePage
     = \<lparr>sp_error = Some ''Couldn't find the URL of the current tab'',
        createBookmark_calls = []\<rparr>"
    by (simp add: runSave_def optional_url_def initial_SavePage_def)
  have n: "runSave [\<lparr>tab_url = None\<rparr>] initial_SavePage
     = \<lparr>sp_error = Some ''Couldn't find the URL of the current tab'',
        createBookmark_calls = []\<rparr>"
    by (simp add: runSave_def optional_url_def initial_SavePage_def)
  let ?tabs = "[\<lparr>tab_url = Some ''https://example.com/page''\<rparr>,
       \<lparr>tab_url = Some ''https://example.com/other''\<rparr>]"
  have h: "?tabs = \<lparr>tab_url = Some ''https://example.com/page''\<rparr>
             # [\<lparr>tab_url = Some ''https://example.com/other''\<rparr>] \<and>
           tab_url \<lparr>tab_url = Some ''https://example.com/page''\<rparr>
             = Some ''https://example.com/page'' \<and> ''https://example.com/page'' \<noteq> []"
    by simp
  from runSave_saves_current_tab [of ?tabs initial_SavePage] h
  have "createBookmark_calls (runSave ?tabs initial_SavePage)
          = createBookmark_calls initial_SavePage
            @ [\<lparr>arg_type = ''link'', arg_url = ''https://example.com/page''\<rparr>] \<and>
        sp_error (runSave ?tabs initial_SavePage) = sp_error initial_SavePage"
    by blast
  then have "createBookmark_calls (runSave ?tabs initial_SavePage)
          = [\<lparr>arg_type = ''link'', arg_url = ''https://example.com/page''\<rparr>] \<and>
        sp_error (runSave ?tabs initial_SavePage) = None"
    by (simp add: initial_SavePage_def)
  with e n show ?thesis by blast
qed

section \<open>The cascade keeps the schema satisfied\<close>

lemma set_non_null: "set (non_null xs) = {v. Some v \<in> set xs}"
  unfolding non_null_def by (induction xs) (auto split: option.splits)

lemma refs_in_filter:
  "refs_in (map f rows) keys \<Longrightarrow> refs_in (map f (filter Q rows)) keys"
  unfolding refs_in_def by auto

lemma refs_in_non_null_filter:
  "refs_in (non_null (map f rows)) keys \<Longrightarrow> refs_in (non_null (map f (filter Q rows))) keys"
  unfolding refs_in_def set_non_null by auto

lemma survivors:
  "k \<in> set (map key ps) \<Longrightarrow> k \<notin> set (map key (filter P ps))
     \<Longrightarrow> k \<in> set (map key (filter (\<lambda>p. \<not> P p) ps))"
  by auto

lemma refs_in_cascade:
  assumes "refs_in (map f rows) (map key ps)"
  shows "refs_in (map f (filter (\<lambda>r. f r \<notin> set (map key (filter P ps))) rows))
           (map key (filter (\<lambda>p. \<not> P p) ps))"
  unfolding refs_in_def
proof
  fix k assume "k \<in> set (map f (filter (\<lambda>r. f r \<notin> set (map key (filter P ps))) rows))"
  then have "k \<in> set (map f rows)" and "k \<notin> set (map key (filter P ps))" by auto
  with assms have "k \<in> set (map key ps)" unfolding refs_in_def by blast
  then show "k \<in> set (map key (filter (\<lambda>p. \<not> P p) ps))"
    using \<open>k \<notin> set (map key (filter P ps))\<close> by (rule survivors)
qed

lemma refs_in_cascade_nullable:
  assumes "refs_in (non_null (map f rows)) (map key ps)"
  shows "refs_in
           (non_null (map f (filter (\<lambda>r. \<not> in_gone (map key (filter P ps)) (f r)) rows)))
           (map key (filter (\<lambda>p. \<not> P p) ps))"
  unfolding refs_in_def
proof
  fix k
  assume "k \<in> set (non_null
    (map f (filter (\<lambda>r. \<not> in_gone (map key (filter P ps)) (f r)) rows)))"
  then obtain r where r: "r \<in> set rows" and g: "\<not> in_gone (map key (filter P ps)) (f r)"
    and k: "f r = Some k"
    unfolding set_non_null by auto
  from g k have "k \<notin> set (map key (filter P ps))" by (simp add: in_gone_def)
  from r k have "k \<in> set (non_null (map f rows))" unfolding set_non_null by force
  with assms have "k \<in> set (map key ps)" unfolding refs_in_def by blast
  then show "k \<in> set (map key (filter (\<lambda>p. \<not> P p) ps))"
    using \<open>k \<notin> set (map key (filter P ps))\<close> by (rule survivors)
qed

lemma refs_in_set_null:
  assumes "refs_in (non_null (map f rows)) (map key ps)"
    and "\<And>r. f (upd r) = (if in_gone (map key (filter P ps)) (f r) then None else f r)"
  shows "refs_in (non_null (map f (map upd rows))) (map key (filter (\<lambda>p. \<not> P p) ps))"
  unfolding refs_in_def
proof
  fix k assume "k \<in> set (non_null (map f (map upd rows)))"
  then obtain r where r: "r \<in> set rows" and k: "f (upd r) = Some k"
    unfolding set_non_null by auto
  from k assms(2) [of r] have "f r = Some k" and "\<not> in_gone (map key (filter P ps)) (f r)"
    by (auto split: if_splits)
  then have "k \<notin> set (map key (filter P ps))" by (simp add: in_gone_def)
  moreover from r \<open>f r = Some k\<close> have "k \<in> set (non_null (map f rows))"
    unfolding set_non_null by force
  with assms(1) have "k \<in> set (map key ps)" unfolding refs_in_def by blast
  ultimately show "k \<in> set (map key (filter (\<lambda>p. \<not> P p) ps))"
    by (rule survivors [rotated])
qed

lemma refs_in_map_same:
  "(\<And>r. f (upd r) = f r) \<Longrightarrow> refs_in (map f (map upd rows)) keys = refs_in (map f rows) keys"
  by (simp add: o_def)

lemma distinct_map_same:
  "(\<And>r. f (upd r) = f r) \<Longrightarrow> distinct (map f (map upd rows)) = distinct (map f rows)"
  by (simp add: o_def)

lemma clear_import_bookmark_keys:
  "map rssFeedImports_id
     (map (\<lambda>r. if c r then r\<lparr>rssFeedImports_bookmarkId := None\<rparr> else r) rows)
   = map rssFeedImports_id rows"
  "map (\<lambda>r. (rssFeedImports_rssFeedId r, rssFeedImports_entryId r))
     (map (\<lambda>r. if c r then r\<lparr>rssFeedImports_bookmarkId := None\<rparr> else r) rows)
   = map (\<lambda>r. (rssFeedImports_rssFeedId r, rssFeedImports_entryId r)) rows"
  "map rssFeedImports_rssFeedId
     (map (\<lambda>r. if c r then r\<lparr>rssFeedImports_bookmarkId := None\<rparr> else r) rows)
   = map rssFeedImports_rssFeedId rows"
  by (induction rows) auto

lemma clear_list_parent_keys:
  "map bookmarkLists_id
     (map (\<lambda>r. if c r then r\<lparr>bookmarkLists_parentId := None\<rparr> else r) rows)
   = map bookmarkLists_id rows"
  "map bookmarkLists_userId
     (map (\<lambda>r. if c r then r\<lparr>bookmarkLists_parentId := None\<rparr> else r) rows)
   = map bookmarkLists_userId rows"
  by (induction rows) auto

lemma pk_ok_delete_bookmarks_where: "pk_ok s \<Longrightarrow> pk_ok (delete_bookmarks_where P s)"
  by (simp add: pk_ok_def delete_bookmarks_where_def Let_def distinct_map_filter
      clear_import_bookmark_keys del: map_map)

lemma unique_ok_delete_bookmarks_where:
  "unique_ok s \<Longrightarrow> unique_ok (delete_bookmarks_where P s)"
  by (simp add: unique_ok_def delete_bookmarks_where_def Let_def distinct_map_filter
      clear_import_bookmark_keys del: map_map)


lemma refs_in_clear_import_bookmark:
  assumes "refs_in (non_null (map rssFeedImports_bookmarkId rows)) (map key ps)"
  shows "refs_in
           (non_null (map rssFeedImports_bookmarkId
              (map (\<lambda>r. if in_gone (map key (filter P ps)) (rssFeedImports_bookmarkId r)
                        then r\<lparr>rssFeedImports_bookmarkId := None\<rparr> else r) rows)))
           (map key (filter (\<lambda>p. \<not> P p) ps))"
  using assms by (rule refs_in_set_null) simp

lemma refs_in_clear_list_parent:
  assumes "refs_in (non_null (map bookmarkLists_parentId rows)) (map bookmarkLists_id rows)"
  shows "refs_in
           (non_null (map bookmarkLists_parentId
              (map (\<lambda>r. if in_gone (map bookmarkLists_id (filter P rows))
                             (bookmarkLists_parentId r)
                        then r\<lparr>bookmarkLists_parentId := None\<rparr> else r)
                 (filter (\<lambda>r. \<not> P r) rows))))
           (map bookmarkLists_id (filter (\<lambda>r. \<not> P r) rows))"
proof -
  from assms have "refs_in (non_null (map bookmarkLists_parentId (filter (\<lambda>r. \<not> P r) rows)))
      (map bookmarkLists_id rows)"
    by (rule refs_in_non_null_filter)
  then show ?thesis by (rule refs_in_set_null) simp
qed

lemma delete_bookmarks_where_rest:
  "users (delete_bookmarks_where P s) = users s"
  "accounts (delete_bookmarks_where P s) = accounts s"
  "sessions (delete_bookmarks_where P s) = sessions s"
  "verificationTokens (delete_bookmarks_where P s) = verificationTokens s"
  "config (delete_bookmarks_where P s) = config s"
  "tagsOnBookmarks (delete_bookmarks_where P s) =
     filter (\<lambda>r. tagsOnBookmarks_bookmarkId r \<notin> set (map bookmarks_id (filter P (bookmarks s))))
       (tagsOnBookmarks s)"
  "bookmarksInLists (delete_bookmarks_where P s) =
     filter (\<lambda>r. bookmarksInLists_bookmarkId r \<notin> set (map bookmarks_id (filter P (bookmarks s))))
       (bookmarksInLists s)"
  "rssFeedImportsTable (delete_bookmarks_where P s) =
     map (\<lambda>r. if in_gone (map bookmarks_id (filter P (bookmarks s))) (rssFeedImports_bookmarkId r)
               then r\<lparr>rssFeedImports_bookmarkId := None\<rparr> else r)
       (rssFeedImportsTable s)"
  by (simp_all add: delete_bookmarks_where_def Let_def)

lemmas delete_bookmarks_where_fields =
  delete_bookmarks_where_frame assets_delete_bookmarks_where delete_bookmarks_where_children
  delete_bookmarks_where_rest

lemma fk_ok_delete_bookmarks_where:
  assumes "fk_ok s"
  shows "fk_ok (delete_bookmarks_where P s)"
  using assms unfolding fk_ok_def delete_bookmarks_where_fields clear_import_bookmark_keys
  apply -
  apply (elim conjE)
  apply (intro conjI)
  apply (assumption | (rule refs_in_cascade, assumption)
       | (rule refs_in_cascade_nullable, assumption)
       | (rule refs_in_clear_import_bookmark, assumption)
       | (rule refs_in_filter, assumption)
       | (rule refs_in_non_null_filter, assumption))+
  done

lemma valid_delete_bookmarks_where: "valid s \<Longrightarrow> valid (delete_bookmarks_where P s)"
  by (simp add: valid_def pk_ok_delete_bookmarks_where unique_ok_delete_bookmarks_where
      fk_ok_delete_bookmarks_where)

lemma delete_bookmarkLists_where_rest:
  "users (delete_bookmarkLists_where P s) = users s"
  "accounts (delete_bookmarkLists_where P s) = accounts s"
  "sessions (delete_bookmarkLists_where P s) = sessions s"
  "verificationTokens (delete_bookmarkLists_where P s) = verificationTokens s"
  "config (delete_bookmarkLists_where P s) = config s"
  "bookmarkLinks (delete_bookmarkLists_where P s) = bookmarkLinks s"
  "bookmarkTexts (delete_bookmarkLists_where P s) = bookmarkTexts s"
  "bookmarkAssets (delete_bookmarkLists_where P s) = bookmarkAssets s"
  "tagsOnBookmarks (delete_bookmarkLists_where P s) = tagsOnBookmarks s"
  "rssFeedImportsTable (delete_bookmarkLists_where P s) = rssFeedImportsTable s"
  "bookmarksInLists (delete_bookmarkLists_where P s) =
     filter (\<lambda>r. bookmarksInLists_listId r
                   \<notin> set (map bookmarkLists_id (filter P (bookmarkLists s))))
       (bookmarksInLists s)"
  by (simp_all add: delete_bookmarkLists_where_def Let_def)

lemmas delete_bookmarkLists_where_fields =
  delete_bookmarkLists_where_frame bookmarkLists_delete_bookmarkLists_where
  delete_bookmarkLists_where_rest

lemma pk_ok_delete_bookmarkLists_where:
  "pk_ok s \<Longrightarrow> pk_ok (delete_bookmarkLists_where P s)"
  by (simp add: pk_ok_def delete_bookmarkLists_where_def Let_def distinct_map_filter
      clear_list_parent_keys del: map_map)

lemma unique_ok_delete_bookmarkLists_where:
  "unique_ok s \<Longrightarrow> unique_ok (delete_bookmarkLists_where P s)"
  by (simp add: unique_ok_def delete_bookmarkLists_where_def Let_def)

lemma fk_ok_delete_bookmarkLists_where:
  assumes "fk_ok s"
  shows "fk_ok (delete_bookmarkLists_where P s)"
  using assms unfolding fk_ok_def delete_bookmarkLists_where_fields clear_list_parent_keys
  apply -
  apply (elim conjE)
  apply (intro conjI)
  apply (assumption | (rule refs_in_cascade, assumption)
       | (rule refs_in_clear_list_parent, assumption)
       | (rule refs_in_filter, assumption))+
  done

lemma valid_delete_bookmarkLists_where:
  "valid s \<Longrightarrow> valid (delete_bookmarkLists_where P s)"
  by (simp add: valid_def pk_ok_delete_bookmarkLists_where
      unique_ok_delete_bookmarkLists_where fk_ok_delete_bookmarkLists_where)

lemma delete_bookmarkTags_where_rest:
  "users (delete_bookmarkTags_where P s) = users s"
  "accounts (delete_bookmarkTags_where P s) = accounts s"
  "sessions (delete_bookmarkTags_where P s) = sessions s"
  "verificationTokens (delete_bookmarkTags_where P s) = verificationTokens s"
  "config (delete_bookmarkTags_where P s) = config s"
  "bookmarkLinks (delete_bookmarkTags_where P s) = bookmarkLinks s"
  "bookmarkTexts (delete_bookmarkTags_where P s) = bookmarkTexts s"
  "bookmarkAssets (delete_bookmarkTags_where P s) = bookmarkAssets s"
  "bookmarksInLists (delete_bookmarkTags_where P s) = bookmarksInLists s"
  "rssFeedImportsTable (delete_bookmarkTags_where P s) = rssFeedImportsTable s"
  "tagsOnBookmarks (delete_bookmarkTags_where P s) =
     filter (\<lambda>r. tagsOnBookmarks_tagId r
                   \<notin> set (map bookmarkTags_id (filter P (bookmarkTags s))))
       (tagsOnBookmarks s)"
  by (simp_all add: delete_bookmarkTags_where_def Let_def)

lemmas delete_bookmarkTags_where_fields =
  delete_bookmarkTags_where_frame delete_bookmarkTags_where_rest

lemma delete_rssFeeds_where_rest:
  "users (delete_rssFeeds_where P s) = users s"
  "accounts (delete_rssFeeds_where P s) = accounts s"
  "sessions (delete_rssFeeds_where P s) = sessions s"
  "verificationTokens (delete_rssFeeds_where P s) = verificationTokens s"
  "config (delete_rssFeeds_where P s) = config s"
  "bookmarkLinks (delete_rssFeeds_where P s) = bookmarkLinks s"
  "bookmarkTexts (delete_rssFeeds_where P s) = bookmarkTexts s"
  "bookmarkAssets (delete_rssFeeds_where P s) = bookmarkAssets s"
  "tagsOnBookmarks (delete_rssFeeds_where P s) = tagsOnBookmarks s"
  "bookmarksInLists (delete_rssFeeds_where P s) = bookmarksInLists s"
  "rssFeedImportsTable (delete_rssFeeds_where P s) =
     filter (\<lambda>r. rssFeedImports_rssFeedId r
                   \<notin> set (map rssFeeds_id (filter P (rssFeedsTable s))))
       (rssFeedImportsTable s)"
  by (simp_all add: delete_rssFeeds_where_def Let_def)

lemmas delete_rssFeeds_where_fields =
  delete_rssFeeds_where_frame delete_rssFeeds_where_rest

lemma pk_ok_delete_bookmarkTags_where:
  "pk_ok s \<Longrightarrow> pk_ok (delete_bookmarkTags_where P s)"
  by (simp add: pk_ok_def delete_bookmarkTags_where_def Let_def distinct_map_filter)

lemma unique_ok_delete_bookmarkTags_where:
  "unique_ok s \<Longrightarrow> unique_ok (delete_bookmarkTags_where P s)"
  by (simp add: unique_ok_def delete_bookmarkTags_where_def Let_def distinct_map_filter)

lemma pk_ok_delete_rssFeeds_where:
  "pk_ok s \<Longrightarrow> pk_ok (delete_rssFeeds_where P s)"
  by (simp add: pk_ok_def delete_rssFeeds_where_def Let_def distinct_map_filter)

lemma unique_ok_delete_rssFeeds_where:
  "unique_ok s \<Longrightarrow> unique_ok (delete_rssFeeds_where P s)"
  by (simp add: unique_ok_def delete_rssFeeds_where_def Let_def distinct_map_filter)

lemma pk_ok_delete_users_where: "pk_ok s \<Longrightarrow> pk_ok (delete_users_where P s)"
  unfolding delete_users_where_def Let_def
  by (intro pk_ok_delete_rssFeeds_where pk_ok_delete_bookmarkLists_where
      pk_ok_delete_bookmarkTags_where pk_ok_delete_bookmarks_where)
     (simp add: pk_ok_def distinct_map_filter)

lemma unique_ok_delete_users_where: "unique_ok s \<Longrightarrow> unique_ok (delete_users_where P s)"
  unfolding delete_users_where_def Let_def
  by (intro unique_ok_delete_rssFeeds_where unique_ok_delete_bookmarkLists_where
      unique_ok_delete_bookmarkTags_where unique_ok_delete_bookmarks_where)
     (simp add: unique_ok_def distinct_map_filter)

lemma delete_users_where_rest:
  "users (delete_users_where P s) = filter (\<lambda>r. \<not> P r) (users s)"
  "accounts (delete_users_where P s) =
     filter (\<lambda>r. accounts_userId r \<notin> set (map users_id (filter P (users s)))) (accounts s)"
  "sessions (delete_users_where P s) =
     filter (\<lambda>r. sessions_userId r \<notin> set (map users_id (filter P (users s)))) (sessions s)"
  "verificationTokens (delete_users_where P s) = verificationTokens s"
  "config (delete_users_where P s) = config s"
  unfolding delete_users_where_def Let_def
  by (simp_all add: delete_rssFeeds_where_fields delete_bookmarkLists_where_fields
      delete_bookmarkTags_where_fields delete_bookmarks_where_fields)

lemma users_step_rest:
  "bookmarkLinks (s\<lparr>users := u, accounts := a, sessions := se, apiKeys := k, assets := as,
      customPrompts := c\<rparr>) = bookmarkLinks s"
  "bookmarkTexts (s\<lparr>users := u, accounts := a, sessions := se, apiKeys := k, assets := as,
      customPrompts := c\<rparr>) = bookmarkTexts s"
  "bookmarkAssets (s\<lparr>users := u, accounts := a, sessions := se, apiKeys := k, assets := as,
      customPrompts := c\<rparr>) = bookmarkAssets s"
  "tagsOnBookmarks (s\<lparr>users := u, accounts := a, sessions := se, apiKeys := k, assets := as,
      customPrompts := c\<rparr>) = tagsOnBookmarks s"
  "bookmarksInLists (s\<lparr>users := u, accounts := a, sessions := se, apiKeys := k, assets := as,
      customPrompts := c\<rparr>) = bookmarksInLists s"
  "rssFeedImportsTable (s\<lparr>users := u, accounts := a, sessions := se, apiKeys := k,
      assets := as, customPrompts := c\<rparr>) = rssFeedImportsTable s"
  by simp_all

lemma delete_users_where_children:
  "bookmarkLinks (delete_users_where P s) =
     filter (\<lambda>r. bookmarkLinks_id r \<notin> set (map bookmarks_id
        (filter (\<lambda>b. bookmarks_userId b \<in> set (map users_id (filter P (users s))))
           (bookmarks s))))
       (bookmarkLinks s)"
  "bookmarkTexts (delete_users_where P s) =
     filter (\<lambda>r. bookmarkTexts_id r \<notin> set (map bookmarks_id
        (filter (\<lambda>b. bookmarks_userId b \<in> set (map users_id (filter P (users s))))
           (bookmarks s))))
       (bookmarkTexts s)"
  "bookmarkAssets (delete_users_where P s) =
     filter (\<lambda>r. bookmarkAssets_id r \<notin> set (map bookmarks_id
        (filter (\<lambda>b. bookmarks_userId b \<in> set (map users_id (filter P (users s))))
           (bookmarks s))))
       (bookmarkAssets s)"
  unfolding delete_users_where_def Let_def
  by (simp_all only: delete_rssFeeds_where_fields delete_bookmarkLists_where_fields
      delete_bookmarkTags_where_fields delete_bookmarks_where_fields users_step_frame
      users_step_rest)

lemma delete_users_where_joins:
  "tagsOnBookmarks (delete_users_where P s) =
     filter (\<lambda>r. tagsOnBookmarks_tagId r \<notin> set (map bookmarkTags_id
        (filter (\<lambda>t. bookmarkTags_userId t \<in> set (map users_id (filter P (users s))))
           (bookmarkTags s))))
       (filter (\<lambda>r. tagsOnBookmarks_bookmarkId r \<notin> set (map bookmarks_id
          (filter (\<lambda>b. bookmarks_userId b \<in> set (map users_id (filter P (users s))))
             (bookmarks s))))
         (tagsOnBookmarks s))"
  "bookmarksInLists (delete_users_where P s) =
     filter (\<lambda>r. bookmarksInLists_listId r \<notin> set (map bookmarkLists_id
        (filter (\<lambda>l. bookmarkLists_userId l \<in> set (map users_id (filter P (users s))))
           (bookmarkLists s))))
       (filter (\<lambda>r. bookmarksInLists_bookmarkId r \<notin> set (map bookmarks_id
          (filter (\<lambda>b. bookmarks_userId b \<in> set (map users_id (filter P (users s))))
             (bookmarks s))))
         (bookmarksInLists s))"
  "rssFeedImportsTable (delete_users_where P s) =
     filter (\<lambda>r. rssFeedImports_rssFeedId r \<notin> set (map rssFeeds_id
        (filter (\<lambda>f. rssFeeds_userId f \<in> set (map users_id (filter P (users s))))
           (rssFeedsTable s))))
       (map (\<lambda>r. if in_gone (map bookmarks_id
                      (filter (\<lambda>b. bookmarks_userId b \<in> set (map users_id (filter P (users s))))
                         (bookmarks s)))
                    (rssFeedImports_bookmarkId r)
                 then r\<lparr>rssFeedImports_bookmarkId := None\<rparr> else r)
          (rssFeedImportsTable s))"
  unfolding delete_users_where_def Let_def
  by (simp_all only: delete_rssFeeds_where_fields delete_bookmarkLists_where_fields
      delete_bookmarkTags_where_fields delete_bookmarks_where_fields users_step_frame
      users_step_rest)


lemma refs_in_keep_feed:
  "refs_in (map rssFeedImports_rssFeedId rows) keys \<Longrightarrow>
   refs_in (map rssFeedImports_rssFeedId
     (map (\<lambda>r. if c r then r\<lparr>rssFeedImports_bookmarkId := None\<rparr> else r) rows)) keys"
  by (simp only: clear_import_bookmark_keys)

lemmas delete_users_where_fields =
  bookmarks_delete_users_where bookmarkTags_delete_users_where
  rssFeedsTable_delete_users_where apiKeys_delete_users_where
  customPrompts_delete_users_where bookmarkLists_delete_users_where_eq
  assets_delete_users_where_eq delete_users_where_rest delete_users_where_children
  delete_users_where_joins

lemma fk_ok_delete_users_where:
  assumes "fk_ok s"
  shows "fk_ok (delete_users_where P s)"
  using assms unfolding fk_ok_def delete_users_where_fields clear_list_parent_keys
  apply -
  apply (elim conjE)
  apply (intro conjI)
  apply (assumption | (rule refs_in_cascade, assumption)
       | (rule refs_in_cascade_nullable, assumption)
       | (rule refs_in_clear_list_parent, assumption)
       | (rule refs_in_clear_import_bookmark, assumption)
       | (rule refs_in_cascade, rule refs_in_filter, assumption)
       | (rule refs_in_cascade, rule refs_in_keep_feed, assumption)
       | (rule refs_in_cascade_nullable, rule refs_in_non_null_filter, assumption)
       | (rule refs_in_filter, rule refs_in_cascade, assumption)
       | (rule refs_in_non_null_filter, rule refs_in_clear_import_bookmark, assumption))+
  done

text \<open>
  Deleting users, with every cascade and set-null action it triggers, leads from a state
  that satisfies the schema to one that does; so do deleting bookmarks and deleting
  lists.
\<close>

lemma valid_delete_users_where: "valid s \<Longrightarrow> valid (delete_users_where P s)"
  by (simp add: valid_def pk_ok_delete_users_where unique_ok_delete_users_where
      fk_ok_delete_users_where)


corollary valid_delete_user: "valid s \<Longrightarrow> valid (delete_user uid s)"
  unfolding delete_user_def by (rule valid_delete_users_where)

corollary valid_delete_bookmark: "valid s \<Longrightarrow> valid (delete_bookmark bid s)"
  unfolding delete_bookmark_def by (rule valid_delete_bookmarks_where)

corollary valid_delete_bookmarkList: "valid s \<Longrightarrow> valid (delete_bookmarkList lid s)"
  unfolding delete_bookmarkList_def by (rule valid_delete_bookmarkLists_where)

end
